theory Spec2Isabelle
  imports Complex_Main "HOL-Library.Word"
begin

section \<open>JavaScript values\<close>

text \<open>
  The metadata the program handles is untyped JSON (\<^verbatim>\<open>any\<close> in the source), so the
  embedding keeps JavaScript's dynamic values. A \<^typ>\<open>char\<close> stands for the UTF-16 code
  unit with the same code: strings whose code units are all below 256 are represented.
  Numbers are the exact rationals they denote, with NaN and the two infinities; the
  rounding of IEEE doubles is not represented. An object is the list of its own
  enumerable properties in enumeration order. An array is the list of its elements; it
  is an object too and can be given named properties. An array read from JSON has none,
  and the only one the program assigns is \<^verbatim>\<open>normalizedMetadata\<close>, on a metadata that was
  parsed to an array: an array carries the value of that property once it is assigned.
  \<open>JArr xs\<close> is the array without it.
\<close>

datatype number = NaN | Fin rat | PosInf | NegInf

datatype jsval =
    JUndefined
  | JNull
  | JBool bool
  | JNum number
  | JStr string
  | JArray "jsval list" "jsval option"
  | JObj "(string \<times> jsval) list"

abbreviation JArr :: "jsval list \<Rightarrow> jsval" where
  "JArr xs \<equiv> JArray xs None"

datatype error = RangeError | TypeError | SyntaxError | LibraryError

subsection \<open>Strings\<close>

definition is_upper_char :: "char \<Rightarrow> bool" where
  "is_upper_char c = (let n = (of_char c :: nat) in
     (65 \<le> n \<and> n \<le> 90) \<or> (192 \<le> n \<and> n \<le> 222 \<and> n \<noteq> 215))"

definition toLowerCase_char :: "char \<Rightarrow> char" where
  "toLowerCase_char c = (if is_upper_char c then char_of ((of_char c :: nat) + 32) else c)"

definition toLowerCase :: "string \<Rightarrow> string" where
  "toLowerCase s = map toLowerCase_char s"

primrec startsWith :: "string \<Rightarrow> string \<Rightarrow> bool" where
  "startsWith s [] = True"
| "startsWith s (p # ps) = (case s of [] \<Rightarrow> False | c # cs \<Rightarrow> c = p \<and> startsWith cs ps)"

text \<open>\<^verbatim>\<open>s.includes(sub)\<close>: \<open>sub\<close> occurs in \<open>s\<close> as a contiguous substring.\<close>

primrec includes_str :: "string \<Rightarrow> string \<Rightarrow> bool" where
  "includes_str [] sub = (sub = [])"
| "includes_str (c # cs) sub = (startsWith (c # cs) sub \<or> includes_str cs sub)"

subsection \<open>Decimal numerals\<close>

definition digit_char :: "nat \<Rightarrow> char" where
  "digit_char d = ''0123456789'' ! d"

function show_dec :: "int \<Rightarrow> string" where
  "show_dec n =
     (if n < 10 then [digit_char (nat n)]
      else show_dec (n div 10) @ [digit_char (nat (n mod 10))])"
  by pat_completeness auto
termination
  by (relation "measure nat") auto

declare show_dec.simps [simp del]

definition show_nat :: "nat \<Rightarrow> string" where
  "show_nat n = show_dec (int n)"

definition digit_val :: "char \<Rightarrow> int" where
  "digit_val c = int (of_char c) - 48"

definition read_dec :: "string \<Rightarrow> int" where
  "read_dec s = foldl (\<lambda>a c. 10 * a + digit_val c) 0 s"

subsection \<open>Truthiness, types and property access\<close>

definition truthy :: "jsval \<Rightarrow> bool" where
  "truthy v = (case v of
      JUndefined \<Rightarrow> False | JNull \<Rightarrow> False | JBool b \<Rightarrow> b
    | JNum n \<Rightarrow> n \<noteq> NaN \<and> n \<noteq> Fin 0
    | JStr s \<Rightarrow> s \<noteq> []
    | JArray xs c \<Rightarrow> True | JObj kvs \<Rightarrow> True)"

text \<open>\<^verbatim>\<open>a || b\<close>\<close>

definition lor :: "jsval \<Rightarrow> jsval \<Rightarrow> jsval" where
  "lor a b = (if truthy a then a else b)"

text \<open>\<^verbatim>\<open>typeof v === 'string'\<close>, \<^verbatim>\<open>'number'\<close>, \<^verbatim>\<open>'object'\<close>, and \<^verbatim>\<open>Array.isArray(v)\<close>.\<close>

definition is_string :: "jsval \<Rightarrow> bool" where
  "is_string v = (case v of JStr s \<Rightarrow> True | _ \<Rightarrow> False)"

definition is_number :: "jsval \<Rightarrow> bool" where
  "is_number v = (case v of JNum n \<Rightarrow> True | _ \<Rightarrow> False)"

definition isArray :: "jsval \<Rightarrow> bool" where
  "isArray v = (case v of JArray xs c \<Rightarrow> True | _ \<Rightarrow> False)"

definition is_object :: "jsval \<Rightarrow> bool" where
  "is_object v = (case v of JNull \<Rightarrow> True | JArray xs c \<Rightarrow> True | JObj kvs \<Rightarrow> True | _ \<Rightarrow> False)"

definition nullish :: "jsval \<Rightarrow> bool" where
  "nullish v = (v = JUndefined \<or> v = JNull)"

definition str_of :: "jsval \<Rightarrow> string" where
  "str_of v = (case v of JStr s \<Rightarrow> s | _ \<Rightarrow> [])"

definition is_digit :: "char \<Rightarrow> bool" where
  "is_digit c = (48 \<le> (of_char c :: nat) \<and> (of_char c :: nat) \<le> 57)"

text \<open>An array index: the canonical decimal numeral of an integer below \<open>2^32 - 1\<close>.\<close>

definition is_index_key :: "string \<Rightarrow> bool" where
  "is_index_key k = (k \<noteq> [] \<and> list_all is_digit k \<and> (k = ''0'' \<or> hd k \<noteq> CHR ''0'')
     \<and> read_dec k < 4294967295)"

text \<open>
  \<^verbatim>\<open>v.k\<close> and \<^verbatim>\<open>v[k]\<close> for a receiver that is neither \<^verbatim>\<open>null\<close> nor \<^verbatim>\<open>undefined\<close> (on those
  the read throws; each caller below that can meet one says so). Own properties only:
  none of the property names the program reads is a member of a built-in prototype.
\<close>

definition index_of_key :: "string \<Rightarrow> nat" where
  "index_of_key k = nat (read_dec k)"

definition get_prop :: "jsval \<Rightarrow> string \<Rightarrow> jsval" where
  "get_prop v k = (case v of
      JObj kvs \<Rightarrow> (case map_of kvs k of Some x \<Rightarrow> x | None \<Rightarrow> JUndefined)
    | JArray xs c \<Rightarrow>
        (if k = ''length'' then JNum (Fin (of_nat (length xs)))
         else if is_index_key k \<and> index_of_key k < length xs then xs ! index_of_key k
         else if k = ''normalizedMetadata'' then (case c of Some x \<Rightarrow> x | None \<Rightarrow> JUndefined)
         else JUndefined)
    | JStr s \<Rightarrow>
        (if k = ''length'' then JNum (Fin (of_nat (length s)))
         else if is_index_key k \<and> index_of_key k < length s then JStr [s ! index_of_key k]
         else JUndefined)
    | _ \<Rightarrow> JUndefined)"

text \<open>\<^verbatim>\<open>'k' in v\<close> for an object or array \<open>v\<close>.\<close>

definition has_prop :: "jsval \<Rightarrow> string \<Rightarrow> bool" where
  "has_prop v k = (case v of
      JObj kvs \<Rightarrow> map_of kvs k \<noteq> None
    | JArray xs c \<Rightarrow>
        k = ''length'' \<or> (is_index_key k \<and> index_of_key k < length xs)
        \<or> (k = ''normalizedMetadata'' \<and> c \<noteq> None)
    | _ \<Rightarrow> False)"

text \<open>
  \<^verbatim>\<open>o[k] = v\<close> on the property list of an object: an existing property keeps its place, a
  new array index goes among the leading indices in ascending order, any other new key
  goes last.
\<close>

definition obj_set :: "(string \<times> jsval) list \<Rightarrow> string \<Rightarrow> jsval \<Rightarrow> (string \<times> jsval) list" where
  "obj_set kvs k v =
     (if map_of kvs k \<noteq> None then map (\<lambda>kv. if fst kv = k then (k, v) else kv) kvs
      else if is_index_key k then
        takeWhile (\<lambda>kv. is_index_key (fst kv) \<and> read_dec (fst kv) < read_dec k) kvs
          @ [(k, v)]
          @ dropWhile (\<lambda>kv. is_index_key (fst kv) \<and> read_dec (fst kv) < read_dec k) kvs
      else kvs @ [(k, v)])"

text \<open>
  \<^verbatim>\<open>v.normalizedMetadata = x\<close> on a value: an object or an array takes the property; on a
  primitive, \<^verbatim>\<open>null\<close> or \<^verbatim>\<open>undefined\<close> the assignment throws (module code is strict).
\<close>

definition set_normalizedMetadata :: "jsval \<Rightarrow> jsval \<Rightarrow> error + jsval" where
  "set_normalizedMetadata v x = (case v of
      JObj kvs \<Rightarrow> Inr (JObj (obj_set kvs ''normalizedMetadata'' x))
    | JArray xs c \<Rightarrow> Inr (JArray xs (Some x))
    | _ \<Rightarrow> Inl TypeError)"

text \<open>\<^verbatim>\<open>Object.entries(v)\<close> for a value that is neither \<^verbatim>\<open>null\<close> nor \<^verbatim>\<open>undefined\<close>.\<close>

definition Object_entries :: "jsval \<Rightarrow> (string \<times> jsval) list" where
  "Object_entries v = (case v of
      JObj kvs \<Rightarrow> kvs
    | JArray xs c \<Rightarrow>
        map (\<lambda>i. (show_nat i, xs ! i)) [0..<length xs]
        @ (case c of None \<Rightarrow> [] | Some x \<Rightarrow> [(''normalizedMetadata'', x)])
    | JStr s \<Rightarrow> map (\<lambda>i. (show_nat i, JStr [s ! i])) [0..<length s]
    | _ \<Rightarrow> [])"

text \<open>
  The values a \<^verbatim>\<open>for (const x of v)\<close> loop visits: the elements of an array, the
  characters of a string; any other value is not iterable and the loop throws.
\<close>

definition iterate :: "jsval \<Rightarrow> error + jsval list" where
  "iterate v = (case v of
      JArray xs c \<Rightarrow> Inr xs
    | JStr s \<Rightarrow> Inr (map (\<lambda>c. JStr [c]) s)
    | _ \<Rightarrow> Inl TypeError)"

subsection \<open>String methods\<close>

definition is_space :: "char \<Rightarrow> bool" where
  "is_space c = ((of_char c :: nat) \<in> {9, 10, 11, 12, 13, 32, 160})"

definition trim :: "string \<Rightarrow> string" where
  "trim s = rev (dropWhile is_space (rev (dropWhile is_space s)))"

text \<open>\<^verbatim>\<open>s.indexOf(sub, from)\<close>, with \<open>None\<close> for \<open>-1\<close>.\<close>

primrec index_from :: "nat \<Rightarrow> string \<Rightarrow> string \<Rightarrow> nat option" where
  "index_from i [] sub = (if sub = [] then Some i else None)"
| "index_from i (c # cs) sub =
     (if startsWith (c # cs) sub then Some i else index_from (Suc i) cs sub)"

definition indexOf :: "string \<Rightarrow> string \<Rightarrow> nat \<Rightarrow> nat option" where
  "indexOf s sub from = index_from (min from (length s)) (drop from s) sub"

text \<open>\<^verbatim>\<open>s.substring(a, b)\<close> for \<open>a \<le> b\<close>, and \<^verbatim>\<open>s.substring(a)\<close>.\<close>

definition substring :: "string \<Rightarrow> nat \<Rightarrow> nat \<Rightarrow> string" where
  "substring s a b = take (b - a) (drop a s)"

text \<open>\<^verbatim>\<open>s.split(sep)\<close> for a one-character separator.\<close>

primrec split_char :: "char \<Rightarrow> string \<Rightarrow> string list" where
  "split_char sep [] = [[]]"
| "split_char sep (c # cs) =
     (if c = sep then [] # split_char sep cs
      else (case split_char sep cs of [] \<Rightarrow> [[c]] | p # ps \<Rightarrow> (c # p) # ps))"

definition endsWith :: "string \<Rightarrow> string \<Rightarrow> bool" where
  "endsWith s suffix = startsWith (rev s) (rev suffix)"

text \<open>
  The comparison of a regular expression with the \<^verbatim>\<open>i\<close> flag: no code unit from 128 to
  255 is canonicalised to an ASCII letter, so only ASCII letters fold.
\<close>

definition ascii_lower :: "char \<Rightarrow> char" where
  "ascii_lower c = (if 65 \<le> (of_char c :: nat) \<and> (of_char c :: nat) \<le> 90
     then char_of ((of_char c :: nat) + 32) else c)"

primrec startsWith_ci :: "string \<Rightarrow> string \<Rightarrow> bool" where
  "startsWith_ci s [] = True"
| "startsWith_ci s (p # ps) =
     (case s of [] \<Rightarrow> False
      | c # cs \<Rightarrow> if ascii_lower c = ascii_lower p then startsWith_ci cs ps else False)"

subsection \<open>Numbers and strings\<close>

primrec frac_digits :: "nat \<Rightarrow> rat \<Rightarrow> string" where
  "frac_digits 0 f = []"
| "frac_digits (Suc n) f =
     (if f = 0 then []
      else digit_char (nat \<lfloor>f * 10\<rfloor>) # frac_digits n (f * 10 - of_int \<lfloor>f * 10\<rfloor>))"

text \<open>
  \<^verbatim>\<open>Number.prototype.toString\<close> in base 10: positional notation for a magnitude from
  \<open>10^-6\<close> up to, but not including, \<open>10^21\<close>, and exponent notation outside of it. The
  digits are those of the exact decimal expansion of the number. JavaScript prints the
  shortest digits that read back as the same double; they are the same digits for every
  integer below \<open>2^53\<close> and for every number of at most 15 significant digits.
\<close>

definition exponent_form :: "string \<Rightarrow> int \<Rightarrow> string" where
  "exponent_form digits e =
     take 1 digits @ (if drop 1 digits = [] then [] else ''.'' @ drop 1 digits)
     @ ''e'' @ (if e < 0 then ''-'' else ''+'') @ show_dec \<bar>e\<bar>"

definition Number_toString :: "number \<Rightarrow> string" where
  "Number_toString n = (case n of
      NaN \<Rightarrow> ''NaN''
    | PosInf \<Rightarrow> ''Infinity''
    | NegInf \<Rightarrow> ''-Infinity''
    | Fin r \<Rightarrow>
        (let a = \<bar>r\<bar>;
             whole = show_dec \<lfloor>a\<rfloor>;
             frac = frac_digits 400 (a - of_int \<lfloor>a\<rfloor>)
         in (if r < 0 then ''-'' else [])
            @ (if 10 ^ 21 \<le> a then
                 exponent_form (rev (dropWhile (\<lambda>c. c = CHR ''0'') (rev (whole @ frac))))
                   (int (length whole) - 1)
               else if 0 < a \<and> a < 1 / 10 ^ 6 then
                 exponent_form (dropWhile (\<lambda>c. c = CHR ''0'') frac)
                   (- int (length (takeWhile (\<lambda>c. c = CHR ''0'') frac)) - 1)
               else whole @ (if frac = [] then [] else ''.'' @ frac))))"

primrec join :: "string \<Rightarrow> string list \<Rightarrow> string" where
  "join sep [] = []"
| "join sep (x # xs) = (if xs = [] then x else x @ sep @ join sep xs)"

text \<open>
  The conversion of an object to a primitive calls its \<^verbatim>\<open>toString\<close> and its \<^verbatim>\<open>valueOf\<close>.
  The objects of this program are read from JSON or built from literals: they have the
  methods of \<^verbatim>\<open>Object.prototype\<close>, unless a property of their own hides them, and a
  property read from JSON is never a function. So the conversion of an object with a
  property \<^verbatim>\<open>toString\<close> of its own throws a \<^verbatim>\<open>TypeError\<close>, for a string as for a number;
  the conversion of any other object gives \<^verbatim>\<open>[object Object]\<close>. An array is converted by
  \<^verbatim>\<open>join\<close>, which converts its elements.
\<close>

fun ToPrimitive_throws :: "jsval \<Rightarrow> bool" where
  "ToPrimitive_throws (JObj kvs) = (map_of kvs ''toString'' \<noteq> None)"
| "ToPrimitive_throws (JArray xs c) = list_ex ToPrimitive_throws xs"
| "ToPrimitive_throws v = False"

text \<open>
  \<^verbatim>\<open>String(v)\<close>, the conversion of template literals, of \<^verbatim>\<open>+\<close> with a string, of \<^verbatim>\<open>join\<close>,
  \<^verbatim>\<open>parseInt\<close>, \<^verbatim>\<open>parseFloat\<close> and \<^verbatim>\<open>exec\<close>, for a value whose conversion does not throw.
\<close>

fun ToString :: "jsval \<Rightarrow> string" where
  "ToString JUndefined = ''undefined''"
| "ToString JNull = ''null''"
| "ToString (JBool b) = (if b then ''true'' else ''false'')"
| "ToString (JNum n) = Number_toString n"
| "ToString (JStr s) = s"
| "ToString (JArray xs c) =
     join '','' (map (\<lambda>x. if x = JUndefined \<or> x = JNull then [] else ToString x) xs)"
| "ToString (JObj kvs) = ''[object Object]''"

text \<open>\<^verbatim>\<open>xs.join(sep)\<close> on an array of values none of which throws when converted.\<close>

definition Array_join :: "string \<Rightarrow> jsval list \<Rightarrow> string" where
  "Array_join sep xs =
     join sep (map (\<lambda>x. if x = JUndefined \<or> x = JNull then [] else ToString x) xs)"

text \<open>An optional sign: whether it is a minus, and the rest.\<close>

definition read_sign :: "string \<Rightarrow> bool \<times> string" where
  "read_sign s = (case s of
      [] \<Rightarrow> (False, [])
    | c # cs \<Rightarrow>
        if c = CHR ''-'' then (True, cs) else if c = CHR ''+'' then (False, cs)
        else (False, c # cs))"

text \<open>\<^verbatim>\<open>parseInt(v, 10)\<close>, for a value whose conversion to a string does not throw.\<close>

definition parseInt :: "jsval \<Rightarrow> number" where
  "parseInt v =
     (let (neg, s) = read_sign (dropWhile is_space (ToString v));
          z = takeWhile is_digit s
      in if z = [] then NaN
         else Fin (if neg then - of_int (read_dec z) else of_int (read_dec z)))"

definition scale10 :: "rat \<Rightarrow> bool \<Rightarrow> nat \<Rightarrow> rat" where
  "scale10 m neg e = (if neg then m / 10 ^ e else m * 10 ^ e)"

text \<open>
  The exponent part of a decimal literal, if one stands at the head of the text: its
  sign, its value and the rest of the text.
\<close>

definition read_exponent :: "string \<Rightarrow> (bool \<times> nat) \<times> string" where
  "read_exponent s = (case s of
      [] \<Rightarrow> ((False, 0), s)
    | c # cs \<Rightarrow>
        if c = CHR ''e'' \<or> c = CHR ''E''
        then (let (eneg, t) = read_sign cs; ed = takeWhile is_digit t
              in if ed = [] then ((False, 0), s)
                 else ((eneg, nat (read_dec ed)), dropWhile is_digit t))
        else ((False, 0), s))"

text \<open>
  The longest unsigned decimal literal at the head of a text (digits, an optional
  fraction, an optional exponent; or a point followed by digits), its value and the rest.
\<close>

definition read_decimal :: "string \<Rightarrow> (rat \<times> string) option" where
  "read_decimal s =
     (let ip = takeWhile is_digit s; r1 = dropWhile is_digit s;
          dot = (r1 \<noteq> [] \<and> hd r1 = CHR ''.'');
          fp = (if dot then takeWhile is_digit (tl r1) else []);
          r2 = (if dot then dropWhile is_digit (tl r1) else r1)
      in if ip = [] \<and> fp = [] then None
         else
           (let ((eneg, e), r3) = read_exponent r2;
                m = of_int (read_dec ip) + of_int (read_dec fp) / 10 ^ length fp
            in Some (scale10 m eneg e, r3)))"

text \<open>
  \<^verbatim>\<open>parseFloat(v)\<close>: the longest prefix that is a decimal literal, for a value whose
  conversion to a string does not throw.
\<close>

definition parseFloat :: "jsval \<Rightarrow> number" where
  "parseFloat v =
     (let (neg, s) = read_sign (dropWhile is_space (ToString v))
      in if startsWith s ''Infinity'' then (if neg then NegInf else PosInf)
         else (case read_decimal s of
                 None \<Rightarrow> NaN
               | Some (x, r) \<Rightarrow> Fin (if neg then - x else x)))"

definition hex_val :: "char \<Rightarrow> nat option" where
  "hex_val c = (let n = (of_char c :: nat) in
     if 48 \<le> n \<and> n \<le> 57 then Some (n - 48)
     else if 97 \<le> n \<and> n \<le> 102 then Some (n - 87)
     else if 65 \<le> n \<and> n \<le> 70 then Some (n - 55)
     else None)"

text \<open>
  The conversion of a value to a number, which \<^verbatim>\<open>isNaN\<close> and the comparison operators
  apply to an operand that is not a number. A string converts when the whole of it,
  white space at its ends aside, is a signed decimal literal, \<^verbatim>\<open>Infinity\<close>, or an
  unsigned literal in base 16, 8 or 2; the empty string converts to 0. The conversion of
  an object or an array throws when \<^const>\<open>ToPrimitive_throws\<close> holds of it; \<open>ToNumber\<close>,
  \<open>isNaN\<close> and the comparisons give the result for the values where it does not.
\<close>

definition digit_in_base :: "nat \<Rightarrow> char \<Rightarrow> bool" where
  "digit_in_base b c = (case hex_val c of None \<Rightarrow> False | Some d \<Rightarrow> d < b)"

definition read_base :: "nat \<Rightarrow> string \<Rightarrow> int" where
  "read_base b s = foldl (\<lambda>a c. int b * a + int (case hex_val c of None \<Rightarrow> 0 | Some d \<Rightarrow> d)) 0 s"

definition StringToNumber :: "string \<Rightarrow> number" where
  "StringToNumber s =
     (let t = trim s in
      if t = [] then Fin 0
      else if (startsWith t ''0x'' \<or> startsWith t ''0X'') \<and> drop 2 t \<noteq> []
              \<and> list_all (digit_in_base 16) (drop 2 t) then Fin (of_int (read_base 16 (drop 2 t)))
      else if (startsWith t ''0o'' \<or> startsWith t ''0O'') \<and> drop 2 t \<noteq> []
              \<and> list_all (digit_in_base 8) (drop 2 t) then Fin (of_int (read_base 8 (drop 2 t)))
      else if (startsWith t ''0b'' \<or> startsWith t ''0B'') \<and> drop 2 t \<noteq> []
              \<and> list_all (digit_in_base 2) (drop 2 t) then Fin (of_int (read_base 2 (drop 2 t)))
      else
        (let (neg, u) = read_sign t in
         if u = ''Infinity'' then (if neg then NegInf else PosInf)
         else (case read_decimal u of
                 None \<Rightarrow> NaN
               | Some (x, r) \<Rightarrow> if r = [] then Fin (if neg then - x else x) else NaN)))"

definition ToNumber :: "jsval \<Rightarrow> number" where
  "ToNumber v = (case v of
      JUndefined \<Rightarrow> NaN
    | JNull \<Rightarrow> Fin 0
    | JBool b \<Rightarrow> Fin (if b then 1 else 0)
    | JNum n \<Rightarrow> n
    | JStr s \<Rightarrow> StringToNumber s
    | JArray xs c \<Rightarrow> StringToNumber (ToString v)
    | JObj kvs \<Rightarrow> NaN)"

text \<open>\<^verbatim>\<open>isNaN(v)\<close>, and the comparisons \<^verbatim>\<open>v > c\<close>, \<^verbatim>\<open>v >= c\<close>, \<^verbatim>\<open>v < c\<close> with a constant.\<close>

definition isNaN :: "jsval \<Rightarrow> bool" where
  "isNaN v = (ToNumber v = NaN)"

definition num_gt :: "number \<Rightarrow> rat \<Rightarrow> bool" where
  "num_gt n c = (case n of NaN \<Rightarrow> False | PosInf \<Rightarrow> True | NegInf \<Rightarrow> False | Fin r \<Rightarrow> c < r)"

definition num_ge :: "number \<Rightarrow> rat \<Rightarrow> bool" where
  "num_ge n c = (case n of NaN \<Rightarrow> False | PosInf \<Rightarrow> True | NegInf \<Rightarrow> False | Fin r \<Rightarrow> c \<le> r)"

definition num_lt :: "number \<Rightarrow> rat \<Rightarrow> bool" where
  "num_lt n c = (case n of NaN \<Rightarrow> False | PosInf \<Rightarrow> False | NegInf \<Rightarrow> True | Fin r \<Rightarrow> r < c)"

definition gt :: "jsval \<Rightarrow> rat \<Rightarrow> bool" where
  "gt v c = num_gt (ToNumber v) c"

definition ge :: "jsval \<Rightarrow> rat \<Rightarrow> bool" where
  "ge v c = num_ge (ToNumber v) c"

definition lt :: "jsval \<Rightarrow> rat \<Rightarrow> bool" where
  "lt v c = num_lt (ToNumber v) c"

section \<open>JSON\<close>

subsection \<open>\<^verbatim>\<open>JSON.stringify\<close>\<close>

definition hex_char :: "nat \<Rightarrow> char" where
  "hex_char d = ''0123456789abcdef'' ! d"

definition quote_char :: "char \<Rightarrow> string" where
  "quote_char c =
     (if c = CHR ''\"'' then [CHR 0x5C, CHR ''\"'']
      else if c = CHR 0x5C then [CHR 0x5C, CHR 0x5C]
      else if c = CHR 0x08 then [CHR 0x5C, CHR ''b'']
      else if c = CHR 0x0C then [CHR 0x5C, CHR ''f'']
      else if c = CHR 0x0A then [CHR 0x5C, CHR ''n'']
      else if c = CHR 0x0D then [CHR 0x5C, CHR ''r'']
      else if c = CHR 0x09 then [CHR 0x5C, CHR ''t'']
      else if (of_char c :: nat) < 32
        then [CHR 0x5C, CHR ''u'', CHR ''0'', CHR ''0'',
              hex_char ((of_char c :: nat) div 16), hex_char ((of_char c :: nat) mod 16)]
      else [c])"

definition quote :: "string \<Rightarrow> string" where
  "quote s = [CHR ''\"''] @ concat (map quote_char s) @ [CHR ''\"'']"

text \<open>
  The serialisation of a value, \<open>None\<close> where \<^verbatim>\<open>JSON.stringify\<close> returns \<^verbatim>\<open>undefined\<close>. An
  \<^verbatim>\<open>undefined\<close> array element is written \<^verbatim>\<open>null\<close> and an \<^verbatim>\<open>undefined\<close> property is left
  out.
\<close>

fun JSON_stringify :: "jsval \<Rightarrow> string option" where
  "JSON_stringify JUndefined = None"
| "JSON_stringify JNull = Some ''null''"
| "JSON_stringify (JBool b) = Some (if b then ''true'' else ''false'')"
| "JSON_stringify (JNum n) = Some (case n of Fin r \<Rightarrow> Number_toString n | _ \<Rightarrow> ''null'')"
| "JSON_stringify (JStr s) = Some (quote s)"
| "JSON_stringify (JArray xs c) =
     Some (''['' @ join '','' (map (\<lambda>x. case JSON_stringify x of None \<Rightarrow> ''null'' | Some t \<Rightarrow> t) xs)
           @ '']'')"
| "JSON_stringify (JObj kvs) =
     Some (''{'' @ join '','' (concat (map (\<lambda>kv. case JSON_stringify (snd kv) of
                                  None \<Rightarrow> [] | Some t \<Rightarrow> [quote (fst kv) @ '':'' @ t]) kvs))
           @ ''}'')"

subsection \<open>\<^verbatim>\<open>JSON.parse\<close>\<close>

text \<open>
  A recursive-descent reader of the JSON grammar. Every function returns the value read
  and the rest of the text, or \<open>None\<close> on a syntax error. The nesting functions carry a
  depth bound; \<open>JSON_parse\<close> starts them with more than the length of the text, and each
  nested call consumes a character. A \<^verbatim>\<open>\u\<close> escape above \<^verbatim>\<open>\u00FF\<close> names a code unit the
  string type does not have: the text is accepted and the low byte kept.
\<close>

definition is_json_space :: "char \<Rightarrow> bool" where
  "is_json_space c = (c = CHR '' '' \<or> c = CHR 0x09 \<or> c = CHR 0x0A \<or> c = CHR 0x0D)"

definition skip_ws :: "string \<Rightarrow> string" where
  "skip_ws s = dropWhile is_json_space s"

definition read_hex4 :: "string \<Rightarrow> char option" where
  "read_hex4 s = (case s of
      a # b # c # d # rest \<Rightarrow>
        (case (hex_val a, hex_val b, hex_val c, hex_val d) of
           (Some x, Some y, Some z, Some w) \<Rightarrow> Some (char_of (z * 16 + w))
         | _ \<Rightarrow> None)
    | _ \<Rightarrow> None)"

text \<open>The characters of a string literal after its opening quote.\<close>

fun read_string :: "string \<Rightarrow> (string \<times> string) option" where
  "read_string [] = None"
| "read_string [c] = (if c = CHR ''\"'' then Some ([], []) else None)"
| "read_string (c # e # cs) =
     (if c = CHR ''\"'' then Some ([], e # cs)
      else if c = CHR 0x5C then
        (if e = CHR ''u'' then
           (case read_hex4 cs of
              None \<Rightarrow> None
            | Some u \<Rightarrow> map_option (\<lambda>(t, r). (u # t, r)) (read_string (drop 4 cs)))
         else
           (case map_of [(CHR ''\"'', CHR ''\"''), (CHR 0x5C, CHR 0x5C), (CHR ''/'', CHR ''/''),
                         (CHR ''b'', CHR 0x08), (CHR ''f'', CHR 0x0C), (CHR ''n'', CHR 0x0A),
                         (CHR ''r'', CHR 0x0D), (CHR ''t'', CHR 0x09)] e of
              None \<Rightarrow> None
            | Some x \<Rightarrow> map_option (\<lambda>(t, r). (x # t, r)) (read_string cs)))
      else if (of_char c :: nat) < 32 then None
      else map_option (\<lambda>(t, r). (c # t, r)) (read_string (e # cs)))"

text \<open>
  A number literal at the head of the text: an optional minus, \<^verbatim>\<open>0\<close> or digits without a
  leading zero, an optional fraction and an optional exponent.
\<close>

definition read_number :: "string \<Rightarrow> (jsval \<times> string) option" where
  "read_number s =
     (let neg = (s \<noteq> [] \<and> hd s = CHR ''-'');
          s1 = (if neg then tl s else s)
      in if s1 = [] \<or> \<not> is_digit (hd s1) then None
         else
           (let ip = (if hd s1 = CHR ''0'' then ''0'' else takeWhile is_digit s1);
                r1 = drop (length ip) s1;
                dot = (case r1 of c # d # t \<Rightarrow> c = CHR ''.'' \<and> is_digit d | _ \<Rightarrow> False);
                fp = (if dot then takeWhile is_digit (tl r1) else []);
                r2 = (if dot then dropWhile is_digit (tl r1) else r1);
                ((eneg, e), r3) = read_exponent r2;
                m = of_int (read_dec ip) + of_int (read_dec fp) / 10 ^ length fp;
                x = scale10 m eneg e
            in Some (JNum (Fin (if neg then - x else x)), r3)))"

fun read_value :: "nat \<Rightarrow> string \<Rightarrow> (jsval \<times> string) option"
  and read_elements :: "nat \<Rightarrow> jsval list \<Rightarrow> string \<Rightarrow> (jsval \<times> string) option"
  and read_members :: "nat \<Rightarrow> (string \<times> jsval) list \<Rightarrow> string \<Rightarrow> (jsval \<times> string) option"
where
  "read_value 0 s = None"
| "read_value (Suc n) s =
     (case skip_ws s of
        [] \<Rightarrow> None
      | c # cs \<Rightarrow>
          if c = CHR ''{'' then
            (case skip_ws cs of
               [] \<Rightarrow> None
             | d # ds \<Rightarrow> if d = CHR ''}'' then Some (JObj [], ds) else read_members n [] (d # ds))
          else if c = CHR ''['' then
            (case skip_ws cs of
               [] \<Rightarrow> None
             | d # ds \<Rightarrow> if d = CHR '']'' then Some (JArr [], ds) else read_elements n [] (d # ds))
          else if c = CHR ''\"'' then map_option (\<lambda>(t, r). (JStr t, r)) (read_string cs)
          else if startsWith (c # cs) ''true'' then Some (JBool True, drop 4 (c # cs))
          else if startsWith (c # cs) ''false'' then Some (JBool False, drop 5 (c # cs))
          else if startsWith (c # cs) ''null'' then Some (JNull, drop 4 (c # cs))
          else read_number (c # cs))"
| "read_elements 0 acc s = None"
| "read_elements (Suc n) acc s =
     (case read_value n s of
        None \<Rightarrow> None
      | Some (v, r) \<Rightarrow>
          (case skip_ws r of
             [] \<Rightarrow> None
           | c # cs \<Rightarrow>
               if c = CHR '','' then read_elements n (acc @ [v]) cs
               else if c = CHR '']'' then Some (JArr (acc @ [v]), cs)
               else None))"
| "read_members 0 acc s = None"
| "read_members (Suc n) acc s =
     (case skip_ws s of
        [] \<Rightarrow> None
      | q # qs \<Rightarrow>
          if q \<noteq> CHR ''\"'' then None
          else
            (case read_string qs of
               None \<Rightarrow> None
             | Some (k, r1) \<Rightarrow>
                 (case skip_ws r1 of
                    [] \<Rightarrow> None
                  | c # cs \<Rightarrow>
                      if c \<noteq> CHR '':'' then None
                      else
                        (case read_value n cs of
                           None \<Rightarrow> None
                         | Some (v, r2) \<Rightarrow>
                             (case skip_ws r2 of
                                [] \<Rightarrow> None
                              | d # ds \<Rightarrow>
                                  if d = CHR '','' then read_members n (obj_set acc k v) ds
                                  else if d = CHR ''}'' then Some (JObj (obj_set acc k v), ds)
                                  else None)))))"

definition JSON_parse :: "string \<Rightarrow> error + jsval" where
  "JSON_parse s =
     (case read_value (Suc (length s)) s of
        None \<Rightarrow> Inl SyntaxError
      | Some (v, r) \<Rightarrow> if skip_ws r = [] then Inr v else Inl SyntaxError)"

section \<open>The regular expressions of the program\<close>

text \<open>
  Each regular expression of the source is a function of its own. \<open>first_match m s\<close> is
  the leftmost position of \<open>s\<close> where the matcher \<open>m\<close> succeeds, with its result, as
  \<^verbatim>\<open>s.match(re)\<close> and \<^verbatim>\<open>s.search(re)\<close> find it.
\<close>

primrec first_match :: "(string \<Rightarrow> 'a option) \<Rightarrow> string \<Rightarrow> 'a option" where
  "first_match m [] = m []"
| "first_match m (c # cs) =
     (case m (c # cs) of Some r \<Rightarrow> Some r | None \<Rightarrow> first_match m cs)"

text \<open>
  \<^verbatim>\<open>\s*(C+)\<close> at the head of a text, for a character class \<open>C\<close>: the white space is
  matched greedily and given back one character at a time until \<open>C+\<close> matches.
\<close>

definition spaces_then :: "(char \<Rightarrow> bool) \<Rightarrow> string \<Rightarrow> string option" where
  "spaces_then C t =
     (case find (\<lambda>k. takeWhile C (drop k t) \<noteq> []) (rev [0..<Suc (length (takeWhile is_space t))]) of
        None \<Rightarrow> None
      | Some k \<Rightarrow> Some (takeWhile C (drop k t)))"

text \<open>\<^verbatim>\<open>/Key:\s*(C+)/i\<close> at the head of a text.\<close>

definition key_value_here :: "string \<Rightarrow> (char \<Rightarrow> bool) \<Rightarrow> string \<Rightarrow> string option" where
  "key_value_here key C t =
     (if startsWith_ci t key then spaces_then C (drop (length key) t) else None)"

definition not_comma_newline :: "char \<Rightarrow> bool" where
  "not_comma_newline c = (c \<noteq> CHR '','' \<and> c \<noteq> CHR 0x0A)"

definition is_hex_digit :: "char \<Rightarrow> bool" where
  "is_hex_digit c = (is_digit c \<or> (97 \<le> (of_char (ascii_lower c) :: nat) \<and> (of_char (ascii_lower c) :: nat) \<le> 102))"

definition digit_or_dot :: "char \<Rightarrow> bool" where
  "digit_or_dot c = (is_digit c \<or> c = CHR ''.'')"

text \<open>\<^verbatim>\<open>/Model:\s*([^,\n]+)/i\<close>\<close>

definition match_Model :: "string \<Rightarrow> string option" where
  "match_Model s = first_match (key_value_here ''Model:'' not_comma_newline) s"

text \<open>\<^verbatim>\<open>/Model hash:\s*([a-f0-9]+)/i\<close>\<close>

definition match_Model_hash :: "string \<Rightarrow> string option" where
  "match_Model_hash s = first_match (key_value_here ''Model hash:'' is_hex_digit) s"

text \<open>\<^verbatim>\<open>/Steps:\s*(\d+)/i\<close> and \<^verbatim>\<open>/Steps:\s*([0-9]+)/i\<close>\<close>

definition match_Steps :: "string \<Rightarrow> string option" where
  "match_Steps s = first_match (key_value_here ''Steps:'' is_digit) s"

text \<open>\<^verbatim>\<open>/Sampler:\s*([^,\n]+)/i\<close>\<close>

definition match_Sampler :: "string \<Rightarrow> string option" where
  "match_Sampler s = first_match (key_value_here ''Sampler:'' not_comma_newline) s"

text \<open>\<^verbatim>\<open>/CFG scale:\s*([0-9.]+)/i\<close>\<close>

definition match_CFG_scale :: "string \<Rightarrow> string option" where
  "match_CFG_scale s = first_match (key_value_here ''CFG scale:'' digit_or_dot) s"

text \<open>\<^verbatim>\<open>/Seed:\s*([0-9]+)/i\<close>\<close>

definition match_Seed :: "string \<Rightarrow> string option" where
  "match_Seed s = first_match (key_value_here ''Seed:'' is_digit) s"

text \<open>\<^verbatim>\<open>/Size:\s*(\d+)\s*x\s*(\d+)/i\<close>: the two groups.\<close>

definition Size_here :: "string \<Rightarrow> (string \<times> string) option" where
  "Size_here t =
     (if \<not> startsWith_ci t ''Size:'' then None
      else
        (let t1 = dropWhile is_space (drop 5 t);
             w = takeWhile is_digit t1;
             t2 = dropWhile is_space (dropWhile is_digit t1)
         in if w = [] \<or> t2 = [] \<or> ascii_lower (hd t2) \<noteq> CHR ''x'' then None
            else
              (let h = takeWhile is_digit (dropWhile is_space (tl t2))
               in if h = [] then None else Some (w, h))))"

definition match_Size :: "string \<Rightarrow> (string \<times> string) option" where
  "match_Size s = first_match Size_here s"

text \<open>\<^verbatim>\<open>/Size:\s*([0-9]+x[0-9]+)/i\<close>: the group.\<close>

definition Size_group_here :: "string \<Rightarrow> string option" where
  "Size_group_here t =
     (if \<not> startsWith_ci t ''Size:'' then None
      else
        (let t1 = dropWhile is_space (drop 5 t);
             w = takeWhile is_digit t1;
             t2 = dropWhile is_digit t1
         in if w = [] \<or> t2 = [] \<or> ascii_lower (hd t2) \<noteq> CHR ''x'' then None
            else
              (let h = takeWhile is_digit (tl t2)
               in if h = [] then None else Some (w @ [hd t2] @ h))))"

definition match_Size_group :: "string \<Rightarrow> string option" where
  "match_Size_group s = first_match Size_group_here s"

text \<open>\<^verbatim>\<open>s.search(/\n[A-Z][a-z]+:/)\<close>: the index of the leftmost match.\<close>

definition is_ascii_upper :: "char \<Rightarrow> bool" where
  "is_ascii_upper c = (65 \<le> (of_char c :: nat) \<and> (of_char c :: nat) \<le> 90)"

definition is_ascii_lower :: "char \<Rightarrow> bool" where
  "is_ascii_lower c = (97 \<le> (of_char c :: nat) \<and> (of_char c :: nat) \<le> 122)"

definition param_line_here :: "string \<Rightarrow> bool" where
  "param_line_here t = (case t of
      n # u # rest \<Rightarrow>
        n = CHR 0x0A \<and> is_ascii_upper u \<and> takeWhile is_ascii_lower rest \<noteq> []
        \<and> startsWith (dropWhile is_ascii_lower rest) '':''
    | _ \<Rightarrow> False)"

primrec search_param_line :: "nat \<Rightarrow> string \<Rightarrow> nat option" where
  "search_param_line i [] = None"
| "search_param_line i (c # cs) =
     (if param_line_here (c # cs) then Some i else search_param_line (Suc i) cs)"

text \<open>
  The loops \<^verbatim>\<open>while ((match = pattern.exec(text)) !== null)\<close> over a pattern with the
  \<^verbatim>\<open>g\<close> flag: the first groups of the successive matches, each search resuming where the
  previous match ended. A matcher gives the group and the length of the whole match;
  \<open>prev\<close> is the character before the position (for \<^verbatim>\<open>\b\<close>), \<open>skip\<close> counts the characters
  of a match still to pass.
\<close>

primrec exec_all :: "(char option \<Rightarrow> string \<Rightarrow> (string \<times> nat) option) \<Rightarrow> char option \<Rightarrow> nat \<Rightarrow> string \<Rightarrow> string list" where
  "exec_all m prev skip [] = []"
| "exec_all m prev skip (c # cs) =
     (if 0 < skip then exec_all m (Some c) (skip - 1) cs
      else (case m prev (c # cs) of
              Some (g, len) \<Rightarrow> g # exec_all m (Some c) (len - 1) cs
            | None \<Rightarrow> exec_all m (Some c) 0 cs))"

text \<open>\<^verbatim>\<open>/<lora:([^:>]+):[^>]*>/gi\<close> and \<^verbatim>\<open>/<lyco:([^:>]+):[^>]*>/gi\<close>, by the tag's name.\<close>

definition tag_here :: "string \<Rightarrow> char option \<Rightarrow> string \<Rightarrow> (string \<times> nat) option" where
  "tag_here name prev t =
     (if \<not> startsWith_ci t (''<'' @ name @ '':'') then None
      else
        (let t1 = drop (length name + 2) t;
             g = takeWhile (\<lambda>c. c \<noteq> CHR '':'' \<and> c \<noteq> CHR ''>'') t1;
             t2 = drop (length g) t1
         in if g = [] \<or> \<not> startsWith t2 '':'' then None
            else
              (let w = takeWhile (\<lambda>c. c \<noteq> CHR ''>'') (tl t2)
               in if drop (length w) (tl t2) = [] then None
                  else Some (g, length name + 2 + length g + 1 + length w + 1))))"

text \<open>\<^verbatim>\<open>/\blora:([^\s,>]+)/gi\<close> and \<^verbatim>\<open>/\blyco:([^\s,>]+)/gi\<close>\<close>

definition is_word_char :: "char \<Rightarrow> bool" where
  "is_word_char c = (is_digit c \<or> is_ascii_upper c \<or> is_ascii_lower c \<or> c = CHR ''_'')"

definition bare_here :: "string \<Rightarrow> char option \<Rightarrow> string \<Rightarrow> (string \<times> nat) option" where
  "bare_here name prev t =
     (if (case prev of None \<Rightarrow> False | Some p \<Rightarrow> is_word_char p) then None
      else if \<not> startsWith_ci t (name @ '':'') then None
      else
        (let g = takeWhile (\<lambda>c. \<not> is_space c \<and> c \<noteq> CHR '','' \<and> c \<noteq> CHR ''>'') (drop (length name + 1) t)
         in if g = [] then None else Some (g, length name + 1 + length g)))"

text \<open>
  \<^verbatim>\<open>s.match(/['"]\s*([^'"]*\.safetensors|[^'"]*\.ckpt|[^'"]*\.pt)\s*['"]/g)\<close>, each match
  without its two quotes. A match runs from a quote to the next quote, and the text
  between them, white space at its ends aside, ends with one of the three extensions.
  \<open>open\<close> holds the text since the last quote that no match has consumed.
\<close>

definition is_quote :: "char \<Rightarrow> bool" where
  "is_quote c = (c = CHR ''\"'' \<or> c = CHR 0x27)"

definition model_file_text :: "string \<Rightarrow> bool" where
  "model_file_text seg =
     (let body = rev (dropWhile is_space (rev seg))
      in endsWith body ''.safetensors'' \<or> endsWith body ''.ckpt'' \<or> endsWith body ''.pt'')"

primrec model_file_matches :: "string option \<Rightarrow> string \<Rightarrow> string list" where
  "model_file_matches opn [] = []"
| "model_file_matches opn (c # cs) =
     (if is_quote c then
        (case opn of
           None \<Rightarrow> model_file_matches (Some []) cs
         | Some seg \<Rightarrow>
             if model_file_text seg then seg # model_file_matches None cs
             else model_file_matches (Some []) cs)
      else model_file_matches (map_option (\<lambda>seg. seg @ [c]) opn) cs)"

text \<open>\<^verbatim>\<open>/^[a-f0-9\-]+$/i.test(s)\<close>\<close>

definition is_hex_key :: "string \<Rightarrow> bool" where
  "is_hex_key s = (s \<noteq> [] \<and> list_all (\<lambda>c. is_hex_digit c \<or> c = CHR ''-'') s)"

text \<open>The text holds the key as a substring, the case of ASCII letters aside.\<close>

primrec includes_ci :: "string \<Rightarrow> string \<Rightarrow> bool" where
  "includes_ci [] key = (key = [])"
| "includes_ci (c # cs) key = (startsWith_ci (c # cs) key \<or> includes_ci cs key)"

section \<open>Control flow\<close>

text \<open>
  The outcome of a statement that works on a state \<open>'s\<close>: it falls through with the new
  state, returns a value from the enclosing function, or throws; a throw keeps the state
  reached, which is what a \<^verbatim>\<open>catch\<close> block that goes on to return the accumulator sees.
\<close>

datatype ('s, 'r) flow = Next 's | Return 'r | Throw 's

primrec for_each :: "('a \<Rightarrow> 's \<Rightarrow> ('s, 'r) flow) \<Rightarrow> 'a list \<Rightarrow> 's \<Rightarrow> ('s, 'r) flow" where
  "for_each body [] s = Next s"
| "for_each body (x # xs) s =
     (case body x s of
        Next s' \<Rightarrow> for_each body xs s'
      | Return r \<Rightarrow> Return r
      | Throw s' \<Rightarrow> Throw s')"

text \<open>One statement after another, where the first may throw.\<close>

definition and_then :: "error + 'a \<Rightarrow> ('a \<Rightarrow> error + 'b) \<Rightarrow> error + 'b" where
  "and_then r f = (case r of Inl e \<Rightarrow> Inl e | Inr x \<Rightarrow> f x)"

text \<open>\<^verbatim>\<open>if (typeof x === 'string') x = JSON.parse(x)\<close>\<close>

definition parse_if_string :: "jsval \<Rightarrow> error + jsval" where
  "parse_if_string x = (case x of JStr s \<Rightarrow> JSON_parse s | _ \<Rightarrow> Inr x)"

text \<open>\<^verbatim>\<open>a?.k\<close>\<close>

definition opt_prop :: "jsval \<Rightarrow> string \<Rightarrow> jsval" where
  "opt_prop a k = (if nullish a then JUndefined else get_prop a k)"

text \<open>
  The operand of \<^verbatim>\<open>in\<close> has to be an object; \<^verbatim>\<open>'normalizedMetadata' in metadata\<close> throws
  on anything else.
\<close>

definition in_operand :: "jsval \<Rightarrow> bool" where
  "in_operand v = (case v of JArray xs c \<Rightarrow> True | JObj kvs \<Rightarrow> True | _ \<Rightarrow> False)"

text \<open>
  \<^verbatim>\<open>'normalizedMetadata' in metadata && metadata.normalizedMetadata\<close>, for an object: the
  cache when the test passes.
\<close>

definition normalized_of :: "jsval \<Rightarrow> jsval option" where
  "normalized_of metadata =
     (if has_prop metadata ''normalizedMetadata'' \<and> truthy (get_prop metadata ''normalizedMetadata'')
      then Some (get_prop metadata ''normalizedMetadata'') else None)"

text \<open>
  The cached field of \<^verbatim>\<open>metadata.normalizedMetadata\<close>, when the cache is there and the
  field passes the test the extractor applies to it.
\<close>

definition cached_field :: "(jsval \<Rightarrow> bool) \<Rightarrow> string \<Rightarrow> jsval \<Rightarrow> jsval option" where
  "cached_field populated k metadata =
     (case normalized_of metadata of
        None \<Rightarrow> None
      | Some normalized \<Rightarrow>
          if populated (get_prop normalized k) then Some (get_prop normalized k) else None)"

section \<open>Image metadata\<close>

text \<open>
  Modelled from the spec: the type guards \<^verbatim>\<open>isInvokeAIMetadata\<close>,
  \<^verbatim>\<open>isAutomatic1111Metadata\<close> and \<^verbatim>\<open>isComfyUIMetadata\<close> are imported from \<^verbatim>\<open>../types\<close>, which
  is not among the sources. The specification describes \<^verbatim>\<open>ImageMetadata\<close> as a tagged
  union with one variant per generator and a variant for none of them, so the model
  tags the metadata object with its variant and the guards test the tag. The parsers tag
  a value with the type the source gives it where it is built.
\<close>

datatype ImageMetadata =
    InvokeAIMetadata jsval
  | Automatic1111Metadata jsval
  | ComfyUIMetadata jsval
  | UnknownMetadata jsval

definition object_of :: "ImageMetadata \<Rightarrow> jsval" where
  "object_of m = (case m of
      InvokeAIMetadata v \<Rightarrow> v | Automatic1111Metadata v \<Rightarrow> v
    | ComfyUIMetadata v \<Rightarrow> v | UnknownMetadata v \<Rightarrow> v)"

definition isInvokeAIMetadata :: "ImageMetadata \<Rightarrow> bool" where
  "isInvokeAIMetadata m = (case m of InvokeAIMetadata v \<Rightarrow> True | _ \<Rightarrow> False)"

definition isAutomatic1111Metadata :: "ImageMetadata \<Rightarrow> bool" where
  "isAutomatic1111Metadata m = (case m of Automatic1111Metadata v \<Rightarrow> True | _ \<Rightarrow> False)"

definition isComfyUIMetadata :: "ImageMetadata \<Rightarrow> bool" where
  "isComfyUIMetadata m = (case m of ComfyUIMetadata v \<Rightarrow> True | _ \<Rightarrow> False)"

section \<open>Models\<close>

text \<open>
  The template literal of the last case converts \<^verbatim>\<open>mechanism\<close> to a string, which throws
  for an object that has a \<^verbatim>\<open>toString\<close> property.
\<close>

definition extractModelName :: "jsval \<Rightarrow> error + jsval" where
  "extractModelName modelData =
     (if is_string modelData then Inr (JStr (trim (str_of modelData)))
      else if truthy modelData \<and> is_object modelData then
        (case find (\<lambda>name. truthy name \<and> is_string name \<and> trim (str_of name) \<noteq> [])
                (map (get_prop modelData)
                   [''name'', ''model'', ''model_name'', ''base_model'', ''mechanism'', ''type'']) of
           Some name \<Rightarrow> Inr (JStr (trim (str_of name)))
         | None \<Rightarrow>
             if truthy (get_prop modelData ''key'') \<and> is_string (get_prop modelData ''key'') then
               (let key = trim (str_of (get_prop modelData ''key'')) in
                if 20 < length key \<and> is_hex_key key then
                  (let mechanism = lor (lor (get_prop modelData ''mechanism'') (get_prop modelData ''type''))
                                       (JStr ''Model'')
                   in if ToPrimitive_throws mechanism then Inl TypeError
                      else Inr (JStr (ToString mechanism @ '' ('' @ substring key 0 8 @ ''...)'')))
                else Inr (JStr key))
             else Inr JNull)
      else Inr JNull)"

text \<open>
  \<^verbatim>\<open>if (field) { const modelName = extractModelName(field); if (modelName) models.push(modelName); }\<close>
\<close>

definition add_model_name :: "jsval \<Rightarrow> jsval list \<Rightarrow> error + jsval list" where
  "add_model_name field models =
     (if truthy field then
        and_then (extractModelName field)
          (\<lambda>modelName. Inr (if truthy modelName then models @ [modelName] else models))
      else Inr models)"

text \<open>\<^verbatim>\<open>name.split(sep).pop() || name\<close>\<close>

definition last_segment :: "char \<Rightarrow> string \<Rightarrow> string" where
  "last_segment sep name =
     (if last (split_char sep name) = [] then name else last (split_char sep name))"

text \<open>The body of \<^verbatim>\<open>modelMatches.forEach\<close>, for a match without its quotes.\<close>

definition add_model_file :: "string \<Rightarrow> jsval list \<Rightarrow> jsval list" where
  "add_model_file match models =
     (let modelName = last_segment (CHR 0x5C) (last_segment (CHR ''/'') (trim match))
      in if modelName \<noteq> [] \<and> JStr modelName \<notin> set models then models @ [JStr modelName]
         else models)"

definition extractModelsFromInvokeAI :: "jsval \<Rightarrow> error + jsval list" where
  "extractModelsFromInvokeAI metadata =
     (if nullish metadata then Inl TypeError
      else
        and_then (add_model_name (get_prop metadata ''model'') []) (\<lambda>models1.
        and_then (add_model_name (get_prop metadata ''base_model'') models1) (\<lambda>models2.
        and_then (add_model_name (get_prop metadata ''model_name'') models2) (\<lambda>models.
          (case JSON_stringify metadata of
             None \<Rightarrow> Inl TypeError
           | Some text \<Rightarrow>
               (let metadataStr = toLowerCase text
                in Inr (filter truthy
                          (foldl (\<lambda>models match. add_model_file match models) models
                             (model_file_matches None metadataStr)))))))))"

definition extractModelsFromAutomatic1111 :: "jsval \<Rightarrow> error + jsval list" where
  "extractModelsFromAutomatic1111 metadata =
     (let params = opt_prop metadata ''parameters'' in
      if \<not> is_string params then Inl TypeError
      else
        (let models = (case match_Model (str_of params) of
                         None \<Rightarrow> []
                       | Some g \<Rightarrow> if trim g \<noteq> [] then [JStr (trim g)] else [])
         in Inr (case match_Model_hash (str_of params) of
                   None \<Rightarrow> models
                 | Some g \<Rightarrow>
                     if models = [] then [JStr (''Model ('' @ substring (trim g) 0 8 @ ''...)'')]
                     else models)))"

text \<open>
  \<^verbatim>\<open>extractModelsFromComfyUI\<close> and \<^verbatim>\<open>extractLorasFromComfyUI\<close> are the same code up to
  three tests: on the type of a workflow node, on the class of a prompt node, and on the
  name of an input. \<open>comfy_names\<close> is that code, with the tests as parameters. Its body
  stands in one \<^verbatim>\<open>try\<close> whose \<^verbatim>\<open>catch\<close> keeps the names pushed so far.
\<close>

definition comfy_inputs_scan :: "(string \<Rightarrow> bool) \<Rightarrow> jsval \<Rightarrow> jsval list \<Rightarrow> jsval list" where
  "comfy_inputs_scan key_test inputs names =
     (if truthy inputs then
        foldl (\<lambda>names kv.
                 if key_test (toLowerCase (fst kv)) \<and> is_string (snd kv) \<and> trim (str_of (snd kv)) \<noteq> []
                 then names @ [JStr (trim (str_of (snd kv)))] else names)
          names (Object_entries inputs)
      else names)"

definition comfy_workflow_node ::
  "(string \<Rightarrow> bool) \<Rightarrow> (string \<Rightarrow> bool) \<Rightarrow> jsval \<Rightarrow> jsval list \<Rightarrow> (jsval list, unit) flow" where
  "comfy_workflow_node type_test key_test node names =
     (if nullish node then Throw names
      else if \<not> truthy (get_prop node ''type'') then Next names
      else if \<not> is_string (get_prop node ''type'') then Throw names
      else if type_test (toLowerCase (str_of (get_prop node ''type''))) then
        (let widgets_values = get_prop node ''widgets_values'';
             first = opt_prop widgets_values ''0'';
             names1 =
               (if truthy widgets_values \<and> gt (get_prop widgets_values ''length'') 0
                   \<and> is_string first \<and> trim (str_of first) \<noteq> []
                then names @ [JStr (trim (str_of first))] else names)
         in if truthy widgets_values \<and> ToPrimitive_throws (get_prop widgets_values ''length'')
            then Throw names
            else Next (comfy_inputs_scan key_test (get_prop node ''inputs'') names1))
      else Next names)"

definition comfy_prompt_node ::
  "(string \<Rightarrow> bool) \<Rightarrow> (string \<Rightarrow> bool) \<Rightarrow> jsval \<Rightarrow> jsval list \<Rightarrow> (jsval list, unit) flow" where
  "comfy_prompt_node class_test key_test node names =
     (if nullish node then Throw names
      else if \<not> truthy (get_prop node ''class_type'') then Next names
      else if \<not> is_string (get_prop node ''class_type'') then Throw names
      else if class_test (toLowerCase (str_of (get_prop node ''class_type''))) then
        Next (comfy_inputs_scan key_test (get_prop node ''inputs'') names)
      else Next names)"

definition flow_state :: "('s, 'r) flow \<Rightarrow> 's \<Rightarrow> 's" where
  "flow_state f d = (case f of Next s \<Rightarrow> s | Throw s \<Rightarrow> s | Return r \<Rightarrow> d)"

definition comfy_names ::
  "(string \<Rightarrow> bool) \<Rightarrow> (string \<Rightarrow> bool) \<Rightarrow> (string \<Rightarrow> bool) \<Rightarrow> jsval \<Rightarrow> jsval list" where
  "comfy_names type_test class_test key_test metadata =
     filter truthy
       (case parse_if_string (opt_prop metadata ''workflow'') of
          Inl e \<Rightarrow> []
        | Inr workflow \<Rightarrow>
            (case parse_if_string (opt_prop metadata ''prompt'') of
               Inl e \<Rightarrow> []
             | Inr prompt \<Rightarrow>
                 (case (if truthy workflow \<and> truthy (get_prop workflow ''nodes'') then
                          (case iterate (get_prop workflow ''nodes'') of
                             Inl e \<Rightarrow> Throw []
                           | Inr nodes \<Rightarrow> for_each (comfy_workflow_node type_test key_test) nodes [])
                        else Next []) of
                    Throw names \<Rightarrow> names
                  | Return u \<Rightarrow> []
                  | Next names \<Rightarrow>
                      if truthy prompt then
                        flow_state
                          (for_each (comfy_prompt_node class_test key_test)
                             (map snd (Object_entries prompt)) names) []
                      else names)))"

definition extractModelsFromComfyUI :: "jsval \<Rightarrow> jsval list" where
  "extractModelsFromComfyUI metadata =
     comfy_names (\<lambda>t. includes_str t ''checkpoint'' \<or> includes_str t ''model'')
       (\<lambda>t. includes_str t ''checkpoint'')
       (\<lambda>k. includes_str k ''ckpt_name'' \<or> includes_str k ''model'') metadata"

text \<open>
  The loop \<^verbatim>\<open>for (const node of metadata.workflow.nodes)\<close> of the fallbacks for a format
  that was not recognised stands in no \<^verbatim>\<open>try\<close>: a throw leaves the function.
\<close>

definition raw_workflow_nodes :: "jsval \<Rightarrow> error + jsval list" where
  "raw_workflow_nodes metadata =
     (let nodes = opt_prop (get_prop metadata ''workflow'') ''nodes''
      in if truthy nodes then iterate nodes else Inr [])"

definition extractModelsFromRawMetadata :: "jsval \<Rightarrow> error + jsval list" where
  "extractModelsFromRawMetadata metadata =
     (if nullish metadata then Inl TypeError
      else
        and_then
          (foldl (\<lambda>models field. and_then models (add_model_name (get_prop metadata field))) (Inr [])
             [''model'', ''model_name'', ''ckpt_name'', ''checkpoint'', ''model_hash''])
          (\<lambda>models.
             case raw_workflow_nodes metadata of
               Inl e \<Rightarrow> Inl e
             | Inr nodes \<Rightarrow>
                 (case for_each
                         (\<lambda>node models.
                            if nullish node then Throw models
                            else if get_prop node ''class_type'' = JStr ''CheckpointLoaderSimple''
                                    \<and> truthy (opt_prop (get_prop node ''inputs'') ''ckpt_name'')
                            then (case add_model_name (opt_prop (get_prop node ''inputs'') ''ckpt_name'')
                                         models of
                                    Inl e \<Rightarrow> Throw models
                                  | Inr models' \<Rightarrow> Next models')
                            else (Next models :: (jsval list, unit) flow))
                         nodes models of
                    Next models \<Rightarrow> Inr models
                  | Return u \<Rightarrow> Inr models
                  | Throw models \<Rightarrow> Inl TypeError)))"

definition extractModels :: "ImageMetadata \<Rightarrow> error + jsval" where
  "extractModels m =
     (let metadata = object_of m in
      if \<not> in_operand metadata then Inl TypeError
      else
        (case cached_field (\<lambda>v. truthy v \<and> isArray v) ''models'' metadata of
           Some models \<Rightarrow> Inr models
         | None \<Rightarrow>
             if isInvokeAIMetadata m then map_sum id JArr (extractModelsFromInvokeAI metadata)
             else if isAutomatic1111Metadata m then
               map_sum id JArr (extractModelsFromAutomatic1111 metadata)
             else if isComfyUIMetadata m then Inr (JArr (extractModelsFromComfyUI metadata))
             else
               (case normalized_of metadata of
                  None \<Rightarrow> map_sum id JArr (extractModelsFromRawMetadata metadata)
                | Some normalized \<Rightarrow>
                    if truthy (get_prop normalized ''model'') \<and> is_string (get_prop normalized ''model'')
                    then Inr (JArr [get_prop normalized ''model''])
                    else map_sum id JArr (extractModelsFromRawMetadata metadata))))"

section \<open>LoRAs\<close>

text \<open>\<^verbatim>\<open>if (loraName && !loras.includes(loraName)) loras.push(loraName)\<close> for a string.\<close>

definition push_new :: "string \<Rightarrow> jsval list \<Rightarrow> jsval list" where
  "push_new loraName loras =
     (if loraName \<noteq> [] \<and> JStr loraName \<notin> set loras then loras @ [JStr loraName] else loras)"

text \<open>One pattern of \<^verbatim>\<open>loraPatterns.forEach\<close>: every match of it, trimmed, is pushed if new.\<close>

definition push_matches :: "string list \<Rightarrow> jsval list \<Rightarrow> jsval list" where
  "push_matches groups loras = foldl (\<lambda>loras g. push_new (trim g) loras) loras groups"

text \<open>
  The prompt text \<^verbatim>\<open>extractLorasFromInvokeAI\<close> scans. Mapping an array of segments reads
  \<^verbatim>\<open>p.prompt\<close> of every segment that is not a string, which throws on \<^verbatim>\<open>null\<close>; \<^verbatim>\<open>join\<close>
  converts what the mapping gives to strings.
\<close>

definition lora_prompt_text :: "jsval \<Rightarrow> error + string" where
  "lora_prompt_text prompt = (case prompt of
      JStr s \<Rightarrow> Inr s
    | JArray ps c \<Rightarrow>
        (let mapped = map (\<lambda>p. if is_string p then p else get_prop p ''prompt'') ps
         in if list_ex nullish ps \<or> list_ex ToPrimitive_throws mapped then Inl TypeError
            else Inr (Array_join '' '' mapped))
    | _ \<Rightarrow> Inr [])"

text \<open>The body of \<^verbatim>\<open>metadata.loras.forEach\<close>.\<close>

definition lora_entry_name :: "jsval \<Rightarrow> string" where
  "lora_entry_name lora =
     (if is_string lora then trim (str_of lora)
      else if truthy lora \<and> is_object lora then
        (let model = get_prop lora ''model'';
             directNames =
               [get_prop lora ''name'', get_prop lora ''model_name'', get_prop lora ''key'']
               @ (if truthy model \<and> is_object model then
                    [get_prop model ''name'', get_prop model ''model'', get_prop model ''model_name'',
                     get_prop model ''key'']
                  else if truthy model \<and> is_string model then [model]
                  else [])
         in case find (\<lambda>name. truthy name \<and> is_string name \<and> 0 < length (trim (str_of name)))
                   directNames of
              Some name \<Rightarrow> trim (str_of name)
            | None \<Rightarrow> [])
      else [])"

definition add_lora_entry :: "jsval \<Rightarrow> jsval list \<Rightarrow> jsval list" where
  "add_lora_entry lora loras =
     (let loraName = lora_entry_name lora
      in if loraName \<noteq> [] \<and> 0 < length loraName \<and> loraName \<noteq> ''[object Object]''
            \<and> JStr loraName \<notin> set loras
         then loras @ [JStr loraName] else loras)"

text \<open>The value of \<^verbatim>\<open>loraName\<close> that the block \<^verbatim>\<open>if (metadata.lora)\<close> computes.\<close>

definition single_lora_name :: "jsval \<Rightarrow> jsval" where
  "single_lora_name lora =
     (if is_string lora then JStr (trim (str_of lora))
      else if truthy lora \<and> is_object lora then
        (let loraName = lor (lor (get_prop lora ''name'') (get_prop lora ''model'')) (get_prop lora ''key'')
         in if \<not> is_string loraName then
              lor (get_prop lora ''key'')
                (case JSON_stringify lora of None \<Rightarrow> JUndefined | Some t \<Rightarrow> JStr t)
            else loraName)
      else JStr [])"

text \<open>
  \<^verbatim>\<open>if (loraName && loraName.length > 0 && !loras.includes(loraName)) loras.push(loraName)\<close>;
  the comparison converts \<^verbatim>\<open>loraName.length\<close> to a number.
\<close>

definition add_single_lora :: "jsval \<Rightarrow> jsval list \<Rightarrow> error + jsval list" where
  "add_single_lora lora loras =
     (if truthy lora then
        (let loraName = single_lora_name lora
         in if truthy loraName \<and> ToPrimitive_throws (get_prop loraName ''length'') then Inl TypeError
            else if truthy loraName \<and> gt (get_prop loraName ''length'') 0 \<and> loraName \<notin> set loras
            then Inr (loras @ [loraName]) else Inr loras)
      else Inr loras)"

definition extractLorasFromInvokeAI :: "jsval \<Rightarrow> error + jsval list" where
  "extractLorasFromInvokeAI metadata =
     (if nullish metadata then Inl TypeError
      else
        (case lora_prompt_text (get_prop metadata ''prompt'') of
           Inl e \<Rightarrow> Inl e
         | Inr promptText \<Rightarrow>
             (let loras1 =
                    push_matches (exec_all (bare_here ''lyco'') None 0 promptText)
                      (push_matches (exec_all (bare_here ''lora'') None 0 promptText)
                         (push_matches (exec_all (tag_here ''lyco'') None 0 promptText)
                            (push_matches (exec_all (tag_here ''lora'') None 0 promptText) [])));
                  loras2 =
                    (if truthy (get_prop metadata ''loras'') \<and> isArray (get_prop metadata ''loras'')
                     then foldl (\<lambda>loras lora. add_lora_entry lora loras) loras1
                            (case get_prop metadata ''loras'' of JArray xs c \<Rightarrow> xs | _ \<Rightarrow> [])
                     else loras1)
              in and_then (add_single_lora (get_prop metadata ''lora'') loras2)
                   (\<lambda>loras. Inr (filter truthy loras)))))"

text \<open>
  \<^verbatim>\<open>pattern.exec(params)\<close> converts its argument to a string, so parameters that are not a
  string are searched as the text they convert to.
\<close>

definition extractLorasFromAutomatic1111 :: "jsval \<Rightarrow> error + jsval list" where
  "extractLorasFromAutomatic1111 metadata =
     (if nullish metadata then Inl TypeError
      else
        (let params = get_prop metadata ''parameters'' in
         if ToPrimitive_throws params then Inl TypeError
         else Inr (push_matches (exec_all (tag_here ''lyco'') None 0 (ToString params))
                     (push_matches (exec_all (tag_here ''lora'') None 0 (ToString params)) []))))"

definition extractLorasFromComfyUI :: "jsval \<Rightarrow> jsval list" where
  "extractLorasFromComfyUI metadata =
     comfy_names (\<lambda>t. includes_str t ''lora'' \<or> includes_str t ''lyco'')
       (\<lambda>t. includes_str t ''lora'' \<or> includes_str t ''lyco'')
       (\<lambda>k. includes_str k ''lora_name'' \<or> includes_str k ''lyco_name'') metadata"

definition add_raw_lora_field :: "jsval \<Rightarrow> jsval list \<Rightarrow> jsval list" where
  "add_raw_lora_field field loras =
     (if truthy field then
        (case field of
           JArray xs c \<Rightarrow> loras @ filter (\<lambda>l. is_string l \<and> trim (str_of l) \<noteq> []) xs
         | JStr s \<Rightarrow> loras @ [JStr (trim s)]
         | _ \<Rightarrow> loras)
      else loras)"

definition extractLorasFromRawMetadata :: "jsval \<Rightarrow> error + jsval list" where
  "extractLorasFromRawMetadata metadata =
     (if nullish metadata then Inl TypeError
      else
        (let loras = foldl (\<lambda>loras field. add_raw_lora_field (get_prop metadata field) loras) []
                       [''loras'', ''lora'', ''lora_name'', ''lyco'', ''lyco_name'']
         in case raw_workflow_nodes metadata of
              Inl e \<Rightarrow> Inl e
            | Inr nodes \<Rightarrow>
                (case for_each
                        (\<lambda>node loras.
                           if nullish node then Throw loras
                           else if \<not> truthy (get_prop node ''class_type'') then Next loras
                           else if \<not> is_string (get_prop node ''class_type'') then Throw loras
                           else if (includes_str (toLowerCase (str_of (get_prop node ''class_type''))) ''lora''
                                    \<or> includes_str (toLowerCase (str_of (get_prop node ''class_type''))) ''lyco'')
                                   \<and> truthy (opt_prop (get_prop node ''inputs'') ''lora_name'')
                           then Next (loras @ [opt_prop (get_prop node ''inputs'') ''lora_name''])
                           else (Next loras :: (jsval list, unit) flow))
                        nodes loras of
                   Next loras \<Rightarrow> Inr loras
                 | Return u \<Rightarrow> Inr loras
                 | Throw loras \<Rightarrow> Inl TypeError)))"

definition extractLoras :: "ImageMetadata \<Rightarrow> error + jsval" where
  "extractLoras m =
     (let metadata = object_of m in
      if \<not> in_operand metadata then Inl TypeError
      else
        (case cached_field (\<lambda>v. truthy v \<and> isArray v) ''loras'' metadata of
           Some loras \<Rightarrow> Inr loras
         | None \<Rightarrow>
             if isInvokeAIMetadata m then map_sum id JArr (extractLorasFromInvokeAI metadata)
             else if isAutomatic1111Metadata m then
               map_sum id JArr (extractLorasFromAutomatic1111 metadata)
             else if isComfyUIMetadata m then Inr (JArr (extractLorasFromComfyUI metadata))
             else map_sum id JArr (extractLorasFromRawMetadata metadata)))"

section \<open>Scheduler\<close>

definition extractSchedulerFromAutomatic1111 :: "jsval \<Rightarrow> error + jsval" where
  "extractSchedulerFromAutomatic1111 metadata =
     (let params = opt_prop metadata ''parameters'' in
      if \<not> is_string params then Inl TypeError
      else Inr (case match_Sampler (str_of params) of
                  Some g \<Rightarrow> JStr (trim g)
                | None \<Rightarrow> JStr ''Unknown''))"

definition extractSchedulerFromComfyUI :: "jsval \<Rightarrow> jsval" where
  "extractSchedulerFromComfyUI metadata =
     (case parse_if_string (opt_prop metadata ''prompt'') of
        Inl e \<Rightarrow> JStr ''Unknown''
      | Inr prompt \<Rightarrow>
          if truthy prompt then
            (case for_each
                    (\<lambda>node (u :: unit).
                       if nullish node then Throw u
                       else if \<not> truthy (get_prop node ''class_type'') then Next u
                       else if \<not> is_string (get_prop node ''class_type'') then Throw u
                       else if includes_str (toLowerCase (str_of (get_prop node ''class_type''))) ''sampler''
                               \<and> truthy (get_prop node ''inputs'') then
                         (let samplerName = lor (get_prop (get_prop node ''inputs'') ''sampler_name'')
                                                (get_prop (get_prop node ''inputs'') ''scheduler'')
                          in if is_string samplerName \<and> trim (str_of samplerName) \<noteq> []
                             then Return (JStr (trim (str_of samplerName))) else Next u)
                       else Next u)
                    (map snd (Object_entries prompt)) () of
               Return r \<Rightarrow> r
             | _ \<Rightarrow> JStr ''Unknown'')
          else JStr ''Unknown'')"

definition extractSchedulerFromRawMetadata :: "jsval \<Rightarrow> error + jsval" where
  "extractSchedulerFromRawMetadata metadata =
     (if nullish metadata then Inl TypeError
      else
        (case find (\<lambda>v. truthy v \<and> is_string v)
                (map (get_prop metadata) [''scheduler'', ''sampler'', ''sampler_name'', ''sampling_method'']) of
           Some v \<Rightarrow> Inr (JStr (trim (str_of v)))
         | None \<Rightarrow>
             (case raw_workflow_nodes metadata of
                Inl e \<Rightarrow> Inl e
              | Inr nodes \<Rightarrow>
                  (case for_each
                          (\<lambda>node (u :: unit).
                             if nullish node then Throw u
                             else if \<not> truthy (get_prop node ''class_type'') then Next u
                             else if \<not> is_string (get_prop node ''class_type'') then Throw u
                             else if includes_str (toLowerCase (str_of (get_prop node ''class_type''))) ''sampler''
                                     \<and> truthy (opt_prop (get_prop node ''inputs'') ''sampler_name'')
                             then Return (opt_prop (get_prop node ''inputs'') ''sampler_name'')
                             else Next u)
                          nodes () of
                     Return r \<Rightarrow> Inr r
                   | Next u \<Rightarrow> Inr (JStr ''Unknown'')
                   | Throw u \<Rightarrow> Inl TypeError))))"

definition extractScheduler :: "ImageMetadata \<Rightarrow> error + jsval" where
  "extractScheduler m =
     (let metadata = object_of m in
      if \<not> in_operand metadata then Inl TypeError
      else
        (case cached_field truthy ''scheduler'' metadata of
           Some scheduler \<Rightarrow> Inr scheduler
         | None \<Rightarrow>
             if isInvokeAIMetadata m then Inr (lor (get_prop metadata ''scheduler'') (JStr ''Unknown''))
             else if isAutomatic1111Metadata m then extractSchedulerFromAutomatic1111 metadata
             else if isComfyUIMetadata m then Inr (extractSchedulerFromComfyUI metadata)
             else extractSchedulerFromRawMetadata metadata))"

section \<open>Normalising parsers\<close>

subsection \<open>Automatic1111\<close>

text \<open>
  The parser fills an object literal field by field. Its \<^verbatim>\<open>try\<close> block works on a string
  with string methods and regular expressions only, so nothing in it throws.
\<close>

definition a1111_prompt :: "string \<Rightarrow> string" where
  "a1111_prompt parameters =
     (case indexOf parameters (CHR 0x0A # ''Negative prompt:'') 0 of
        Some negativePromptIndex \<Rightarrow> trim (substring parameters 0 negativePromptIndex)
      | None \<Rightarrow>
          (case search_param_line 0 parameters of
             Some firstParamIndex \<Rightarrow> trim (substring parameters 0 firstParamIndex)
           | None \<Rightarrow> trim parameters))"

definition parseA1111Metadata :: "string \<Rightarrow> jsval" where
  "parseA1111Metadata parameters =
     (let result0 =
            [(''prompt'', JStr []), (''model'', JStr []), (''width'', JNum (Fin 0)),
             (''height'', JNum (Fin 0)), (''steps'', JNum (Fin 0)), (''scheduler'', JStr []),
             (''negativePrompt'', JStr []), (''cfgScale'', JNum (Fin 0)), (''seed'', JUndefined)];
          result1 = obj_set result0 ''prompt'' (JStr (a1111_prompt parameters));
          result2 =
            (case indexOf parameters (CHR 0x0A # ''Negative prompt:'') 0 of
               None \<Rightarrow> result1
             | Some negativePromptIndex \<Rightarrow>
                 obj_set result1 ''negativePrompt''
                   (JStr (case indexOf parameters [CHR 0x0A] (negativePromptIndex + 1) of
                            Some negativePromptEndIndex \<Rightarrow>
                              trim (substring parameters (negativePromptIndex + 17)
                                      negativePromptEndIndex)
                          | None \<Rightarrow> trim (drop (negativePromptIndex + 17) parameters))));
          result3 =
            (case match_Model parameters of
               None \<Rightarrow> result2
             | Some g \<Rightarrow> obj_set result2 ''model'' (JStr (trim g)));
          result4 =
            (case match_Steps parameters of
               None \<Rightarrow> result3
             | Some g \<Rightarrow>
                 if isNaN (JNum (parseInt (JStr g))) then result3
                 else obj_set result3 ''steps'' (JNum (parseInt (JStr g))));
          result5 =
            (case match_Sampler parameters of
               None \<Rightarrow> result4
             | Some g \<Rightarrow> obj_set result4 ''scheduler'' (JStr (trim g)));
          result6 =
            (case match_CFG_scale parameters of
               None \<Rightarrow> result5
             | Some g \<Rightarrow>
                 if isNaN (JNum (parseFloat (JStr g))) then result5
                 else obj_set result5 ''cfgScale'' (JNum (parseFloat (JStr g))));
          result7 =
            (case match_Seed parameters of
               None \<Rightarrow> result6
             | Some g \<Rightarrow>
                 if isNaN (JNum (parseInt (JStr g))) then result6
                 else obj_set result6 ''seed'' (JNum (parseInt (JStr g))));
          result8 =
            (case match_Size parameters of
               None \<Rightarrow> result7
             | Some (w, h) \<Rightarrow>
                 if isNaN (JNum (parseInt (JStr w))) \<or> isNaN (JNum (parseInt (JStr h))) then result7
                 else obj_set (obj_set result7 ''width'' (JNum (parseInt (JStr w))))
                        ''height'' (JNum (parseInt (JStr h))))
      in JObj result8)"

subsection \<open>InvokeAI\<close>

text \<open>
  The prompt of an array of segments:
  \<^verbatim>\<open>metadata.prompt.map(p => (typeof p === 'string' ? p : p.prompt || '')).filter(p => p.trim()).join(' ')\<close>.
  The map throws on a \<^verbatim>\<open>null\<close> segment, the filter on a mapped value that is not a string.
\<close>

definition segments_prompt :: "jsval list \<Rightarrow> error + string" where
  "segments_prompt ps =
     (if list_ex nullish ps then Inl TypeError
      else
        (let mapped = map (\<lambda>p. if is_string p then p else lor (get_prop p ''prompt'') (JStr [])) ps
         in if list_ex (\<lambda>p. \<not> is_string p) mapped then Inl TypeError
            else Inr (join '' '' (filter (\<lambda>t. trim t \<noteq> []) (map str_of mapped)))))"

text \<open>\<^verbatim>\<open>if (metadata.k) result.f = metadata.k\<close>\<close>

definition copy_if_truthy :: "jsval \<Rightarrow> string \<Rightarrow> string \<Rightarrow> (string \<times> jsval) list \<Rightarrow> (string \<times> jsval) list" where
  "copy_if_truthy metadata k f result =
     (if truthy (get_prop metadata k) then obj_set result f (get_prop metadata k) else result)"

text \<open>
  The statements of the \<^verbatim>\<open>try\<close> block in order; the \<^verbatim>\<open>catch\<close> block logs, and the function
  returns the result as far as it was filled.
\<close>

definition invoke_prompt_step :: "jsval \<Rightarrow> (string \<times> jsval) list \<Rightarrow> ((string \<times> jsval) list, unit) flow" where
  "invoke_prompt_step metadata result =
     (if nullish metadata then Throw result
      else if is_string (get_prop metadata ''positive_prompt'') then
        Next (obj_set result ''prompt'' (get_prop metadata ''positive_prompt''))
      else if is_string (get_prop metadata ''prompt'') then
        Next (obj_set result ''prompt'' (get_prop metadata ''prompt''))
      else
        (case get_prop metadata ''prompt'' of
           JArray ps c \<Rightarrow>
             (case segments_prompt ps of
                Inl e \<Rightarrow> Throw result
              | Inr t \<Rightarrow> Next (obj_set result ''prompt'' (JStr t)))
         | _ \<Rightarrow> Next result))"

definition invoke_core_step :: "jsval \<Rightarrow> (string \<times> jsval) list \<Rightarrow> (string \<times> jsval) list" where
  "invoke_core_step metadata result =
     copy_if_truthy metadata ''seed'' ''seed''
       (copy_if_truthy metadata ''cfg_scale'' ''cfgScale''
          (copy_if_truthy metadata ''scheduler'' ''scheduler''
             (copy_if_truthy metadata ''steps'' ''steps''
                (copy_if_truthy metadata ''height'' ''height''
                   (copy_if_truthy metadata ''width'' ''width''
                      (copy_if_truthy metadata ''model_name'' ''model''
                         (if is_string (get_prop metadata ''negative_prompt'')
                          then obj_set result ''negativePrompt'' (get_prop metadata ''negative_prompt'')
                          else result)))))))"

definition parseInvokeAIMetadata :: "jsval \<Rightarrow> jsval" where
  "parseInvokeAIMetadata metadata =
     (let result0 =
            [(''format'', JStr ''InvokeAI''), (''prompt'', JStr []), (''model'', JStr []),
             (''width'', JNum (Fin 0)), (''height'', JNum (Fin 0)), (''steps'', JNum (Fin 0)),
             (''scheduler'', JStr []), (''negativePrompt'', JStr []), (''cfgScale'', JNum (Fin 0)),
             (''seed'', JUndefined), (''models'', JArr []), (''loras'', JArr [])]
      in JObj
           (case invoke_prompt_step metadata result0 of
              Throw result \<Rightarrow> result
            | Return u \<Rightarrow> result0
            | Next result1 \<Rightarrow>
                (let result2 = invoke_core_step metadata result1 in
                 case extractModelsFromInvokeAI metadata of
                   Inl e \<Rightarrow> result2
                 | Inr models \<Rightarrow>
                     (let result3 = obj_set result2 ''models'' (JArr models) in
                      case extractLorasFromInvokeAI metadata of
                        Inl e \<Rightarrow> result3
                      | Inr loras \<Rightarrow>
                          (let result4 = obj_set result3 ''loras'' (JArr loras)
                           in if models \<noteq> [] then obj_set result4 ''model'' (hd models)
                              else result4)))))"

subsection \<open>The negative-prompt heuristics of the ComfyUI parser\<close>

text \<open>
  The test \<^verbatim>\<open>isNegative\<close> of the text-encode pass of \<^verbatim>\<open>parseComfyUIMetadata\<close>, and the
  test of its fallback scan over every node's \<^verbatim>\<open>inputs.text\<close>.
\<close>

definition isNegative :: "string \<Rightarrow> bool" where
  "isNegative text =
     (includes_str (toLowerCase text) ''blur'' \<or>
      includes_str (toLowerCase text) ''deform'' \<or>
      includes_str (toLowerCase text) ''ugly'' \<or>
      includes_str (toLowerCase text) ''worst'' \<or>
      includes_str (toLowerCase text) ''low quality'' \<or>
      includes_str (toLowerCase text) ''bad'' \<or>
      includes_str (toLowerCase text) ''negative'')"

definition isNegative_fallback :: "string \<Rightarrow> bool" where
  "isNegative_fallback inputs_text =
     (let text = toLowerCase inputs_text in
      includes_str text ''blur'' \<or> includes_str text ''deform'' \<or> includes_str text ''ugly'' \<or>
      includes_str text ''worst'' \<or> includes_str text ''low quality'' \<or> includes_str text ''bad'')"

subsection \<open>ComfyUI\<close>

text \<open>\<^verbatim>\<open>a || b || ... || z\<close>\<close>

definition first_truthy :: "jsval list \<Rightarrow> jsval" where
  "first_truthy vs = foldl lor JUndefined vs"

definition inputs_any :: "jsval \<Rightarrow> string list \<Rightarrow> jsval" where
  "inputs_any inputs ks = first_truthy (map (get_prop inputs) ks)"

definition rget :: "(string \<times> jsval) list \<Rightarrow> string \<Rightarrow> jsval" where
  "rget result k = get_prop (JObj result) k"

text \<open>\<^verbatim>\<open>result.models.push(v)\<close> and \<^verbatim>\<open>result.loras.push(v)\<close>\<close>

definition rpush :: "string \<Rightarrow> jsval \<Rightarrow> (string \<times> jsval) list \<Rightarrow> (string \<times> jsval) list" where
  "rpush k v result =
     obj_set result k (JArr ((case rget result k of JArray xs c \<Rightarrow> xs | _ \<Rightarrow> []) @ [v]))"

text \<open>Checkpoint loader nodes. \<open>lc\<close> is \<^verbatim>\<open>classType.toLowerCase()\<close>.\<close>

definition comfy_checkpoint :: "string \<Rightarrow> jsval \<Rightarrow> (string \<times> jsval) list \<Rightarrow> (string \<times> jsval) list" where
  "comfy_checkpoint classType inputs result =
     (let lc = toLowerCase classType in
      if includes_str lc ''checkpoint'' \<or> includes_str lc ''model''
         \<or> classType = ''CheckpointLoaderSimple'' \<or> classType = ''CheckpointLoader'' then
        (let ckptName = inputs_any inputs [''ckpt_name'', ''checkpoint'', ''model_name'']
         in if truthy ckptName \<and> is_string ckptName then rpush ''models'' ckptName result
            else result)
      else result)"

definition comfy_lora :: "string \<Rightarrow> jsval \<Rightarrow> (string \<times> jsval) list \<Rightarrow> (string \<times> jsval) list" where
  "comfy_lora classType inputs result =
     (let lc = toLowerCase classType in
      if includes_str lc ''lora'' \<or> classType = ''LoraLoader''
         \<or> classType = ''LoraLoaderModelOnly'' \<or> classType = ''LoraLoaderModel'' then
        (let loraName = inputs_any inputs [''lora_name'', ''lora'', ''name'']
         in if truthy loraName \<and> is_string loraName then rpush ''loras'' loraName result
            else result)
      else result)"

text \<open>CLIP text-encode nodes: the first text of each polarity is kept.\<close>

definition comfy_text_encode :: "string \<Rightarrow> jsval \<Rightarrow> (string \<times> jsval) list \<Rightarrow> (string \<times> jsval) list" where
  "comfy_text_encode classType inputs result =
     (let lc = toLowerCase classType in
      if includes_str lc ''clip'' \<and> includes_str lc ''text''
         \<and> (includes_str lc ''encode'' \<or> classType = ''CLIPTextEncode''
              \<or> classType = ''CLIPTextEncodeSDXL'') then
        (let text = inputs_any inputs [''text'', ''prompt'', ''string''] in
         if truthy text \<and> is_string text then
           (if isNegative (str_of text) \<and> \<not> truthy (rget result ''negativePrompt'')
            then obj_set result ''negativePrompt'' text
            else if \<not> isNegative (str_of text) \<and> \<not> truthy (rget result ''prompt'')
            then obj_set result ''prompt'' text
            else result)
         else result)
      else result)"

definition is_sampler_class :: "string \<Rightarrow> bool" where
  "is_sampler_class classType =
     (let lc = toLowerCase classType in
      includes_str lc ''sampler''
      \<or> classType \<in> set [''KSampler'', ''SamplerCustom'', ''Sampler'', ''SamplerEuler'',
            ''SamplerEulerAncestral'', ''SamplerDPMPP2M'', ''SamplerDPMPP2MKarras'',
            ''SamplerDPMAdaptive'', ''SamplerLMS'', ''SamplerHeun'', ''SamplerDPM2'',
            ''SamplerDPM2Ancestral'', ''SamplerUniPC'', ''SamplerTCD'', ''SamplerLCM'']
      \<or> includes_str lc ''ksampler'' \<or> includes_str lc ''sample'')"

text \<open>
  A numeric input that may be written as a string: the value to store, if the input
  passes the test of the source. \<open>parse\<close> is \<^verbatim>\<open>parseInt\<close> or \<^verbatim>\<open>parseFloat\<close> and \<open>ok\<close> the
  range test.
\<close>

definition numeric_input :: "(jsval \<Rightarrow> number) \<Rightarrow> (jsval \<Rightarrow> bool) \<Rightarrow> jsval \<Rightarrow> jsval option" where
  "numeric_input parse ok v =
     (if is_string v then
        (if \<not> isNaN (JNum (parse v)) \<and> ok (JNum (parse v)) then Some (JNum (parse v)) else None)
      else if is_number v \<and> ok v then Some v
      else None)"

definition set_some :: "string \<Rightarrow> jsval option \<Rightarrow> (string \<times> jsval) list \<Rightarrow> (string \<times> jsval) list" where
  "set_some k v result = (case v of None \<Rightarrow> result | Some x \<Rightarrow> obj_set result k x)"

definition comfy_sampler :: "string \<Rightarrow> jsval \<Rightarrow> (string \<times> jsval) list \<Rightarrow> (string \<times> jsval) list" where
  "comfy_sampler classType inputs result =
     (if is_sampler_class classType then
        (let steps = inputs_any inputs [''steps'', ''step_count'', ''num_steps'', ''steps_count''];
             cfg = inputs_any inputs
                     [''cfg'', ''cfg_scale'', ''guidance_scale'', ''scale'', ''guidance'', ''cfg_value''];
             seed = inputs_any inputs [''seed'', ''noise_seed'', ''seed_value''];
             samplerName = inputs_any inputs [''sampler_name'', ''sampler'', ''sampling_method'', ''method''];
             result1 = set_some ''steps'' (numeric_input parseInt (\<lambda>x. gt x 0) steps) result;
             result2 = set_some ''cfgScale'' (numeric_input parseFloat (\<lambda>x. gt x 0) cfg) result1;
             result3 =
               (if seed \<noteq> JUndefined \<and> seed \<noteq> JNull \<and> \<not> isArray seed
                then set_some ''seed'' (numeric_input parseInt (\<lambda>x. ge x 0) seed) result2
                else result2)
         in if truthy samplerName \<and> is_string samplerName
            then obj_set result3 ''scheduler'' samplerName
            else if truthy (get_prop inputs ''scheduler'') \<and> is_string (get_prop inputs ''scheduler'')
            then obj_set result3 ''scheduler'' (get_prop inputs ''scheduler'')
            else result3)
      else result)"

text \<open>Seed nodes: the first input whose name holds \<^verbatim>\<open>seed\<close> and whose value is a positive number.\<close>

definition comfy_seed :: "string \<Rightarrow> jsval \<Rightarrow> (string \<times> jsval) list \<Rightarrow> (string \<times> jsval) list" where
  "comfy_seed classType inputs result =
     (if includes_str (toLowerCase classType) ''seed'' \<or> classType = ''Seed Everywhere''
         \<or> classType = ''Random Seed'' then
        (case find (\<lambda>kv. includes_str (toLowerCase (fst kv)) ''seed'' \<and> is_number (snd kv)
                          \<and> gt (snd kv) 0 \<and> \<not> truthy (rget result ''seed''))
                (Object_entries inputs) of
           None \<Rightarrow> result
         | Some kv \<Rightarrow> obj_set result ''seed'' (snd kv))
      else result)"

definition comfy_size :: "string \<Rightarrow> jsval \<Rightarrow> (string \<times> jsval) list \<Rightarrow> (string \<times> jsval) list" where
  "comfy_size classType inputs result =
     (let lc = toLowerCase classType in
      if includes_str lc ''latent''
         \<or> classType \<in> set [''EmptyLatentImage'', ''LatentFromPrompt'', ''EmptyImage'', ''ImageSize'',
               ''LatentUpscale'', ''LatentDownscale'']
         \<or> includes_str lc ''image'' \<or> includes_str lc ''size'' \<or> includes_str lc ''dimension'' then
        (let width = inputs_any inputs [''width'', ''image_width'', ''size_width'', ''w'', ''x''];
             height = inputs_any inputs [''height'', ''image_height'', ''size_height'', ''h'', ''y''];
             result1 = (if is_number width \<and> gt width 0 then obj_set result ''width'' width else result)
         in if is_number height \<and> gt height 0 then obj_set result1 ''height'' height else result1)
      else result)"

text \<open>
  The body of the main loop over the nodes. \<^verbatim>\<open>classType.toLowerCase()\<close> is evaluated first
  and throws when the class is not a string.
\<close>

definition comfy_node :: "jsval \<Rightarrow> (string \<times> jsval) list \<Rightarrow> ((string \<times> jsval) list, unit) flow" where
  "comfy_node node result =
     (if \<not> (truthy node \<and> is_object node) then Next result
      else
        (let classType = first_truthy [get_prop node ''class_type'', get_prop node ''type'', JStr []];
             inputs = lor (get_prop node ''inputs'') (JObj [])
         in if \<not> is_string classType then Throw result
            else
              Next (comfy_size (str_of classType) inputs
                     (comfy_seed (str_of classType) inputs
                        (comfy_sampler (str_of classType) inputs
                           (comfy_text_encode (str_of classType) inputs
                              (comfy_lora (str_of classType) inputs
                                 (comfy_checkpoint (str_of classType) inputs result))))))))"

text \<open>The fallback scan for prompts over every node's \<^verbatim>\<open>inputs.text\<close>.\<close>

definition comfy_text_fallback :: "jsval \<Rightarrow> (string \<times> jsval) list \<Rightarrow> (string \<times> jsval) list" where
  "comfy_text_fallback node result =
     (let inputs = lor (get_prop node ''inputs'') (JObj []);
          inputs_text = get_prop inputs ''text''
      in if truthy inputs_text \<and> is_string inputs_text then
           (if isNegative_fallback (str_of inputs_text) then
              (if \<not> truthy (rget result ''negativePrompt'')
               then obj_set result ''negativePrompt'' inputs_text else result)
            else
              (if \<not> truthy (rget result ''prompt'')
               then obj_set result ''prompt'' inputs_text else result))
         else result)"

text \<open>
  The fallback scan for numeric parameters under their common names. A seed that is not
  a string goes to \<^verbatim>\<open>isNaN\<close> as it is, which converts it to a number.
\<close>

definition comfy_numeric_fallback ::
  "jsval \<Rightarrow> (string \<times> jsval) list \<Rightarrow> ((string \<times> jsval) list, unit) flow" where
  "comfy_numeric_fallback node result =
     (let inputs = lor (get_prop node ''inputs'') (JObj []);
          possibleSteps = inputs_any inputs
            [''steps'', ''step_count'', ''num_steps'', ''steps_count'', ''step'', ''n_steps''];
          possibleCfg = inputs_any inputs
            [''cfg'', ''cfg_scale'', ''guidance_scale'', ''scale'', ''guidance'', ''cfg_value'', ''strength''];
          possibleSeed = inputs_any inputs [''seed'', ''noise_seed'', ''seed_value'', ''random_seed''];
          result1 =
            set_some ''steps''
              (numeric_input parseInt (\<lambda>x. gt x 0 \<and> lt x 200 \<and> rget result ''steps'' = JNum (Fin 0))
                 possibleSteps) result;
          result2 =
            set_some ''cfgScale''
              (numeric_input parseFloat (\<lambda>x. gt x 0 \<and> lt x 50 \<and> rget result1 ''cfgScale'' = JNum (Fin 0))
                 possibleCfg) result1
      in if possibleSeed \<noteq> JUndefined \<and> possibleSeed \<noteq> JNull \<and> rget result2 ''seed'' = JUndefined then
           (let seedValue = (if is_string possibleSeed then JNum (parseInt possibleSeed) else possibleSeed)
            in if ToPrimitive_throws seedValue then Throw result2
               else if \<not> isNaN seedValue \<and> ge seedValue 0 then Next (obj_set result2 ''seed'' seedValue)
               else Next result2)
         else Next result2)"

text \<open>The final search over every input of every node, by the input's name.\<close>

definition comfy_final_input :: "string \<times> jsval \<Rightarrow> (string \<times> jsval) list \<Rightarrow> (string \<times> jsval) list" where
  "comfy_final_input kv result =
     (let key = toLowerCase (fst kv); v = snd kv;
          result1 =
            (if (includes_str key ''step'' \<or> key = ''steps'' \<or> key = ''n_steps'')
                \<and> rget result ''steps'' = JNum (Fin 0)
             then set_some ''steps'' (numeric_input parseInt (\<lambda>x. gt x 0 \<and> lt x 200) v) result
             else result);
          result2 =
            (if (includes_str key ''cfg'' \<or> includes_str key ''guidance'' \<or> key = ''scale''
                 \<or> key = ''strength'') \<and> rget result1 ''cfgScale'' = JNum (Fin 0)
             then set_some ''cfgScale'' (numeric_input parseFloat (\<lambda>x. gt x 0 \<and> lt x 50) v) result1
             else result1)
      in if (includes_str key ''seed'' \<or> key = ''noise_seed'') \<and> rget result2 ''seed'' = JUndefined
         then set_some ''seed'' (numeric_input parseInt (\<lambda>x. ge x 0) v) result2
         else result2)"

definition comfy_final :: "jsval \<Rightarrow> (string \<times> jsval) list \<Rightarrow> (string \<times> jsval) list" where
  "comfy_final node result =
     foldl (\<lambda>result kv. comfy_final_input kv result) result
       (Object_entries (lor (get_prop node ''inputs'') (JObj [])))"

text \<open>
  The passes over the chosen graph. The first loop of the source only collects the node
  types for logging, but it reads \<^verbatim>\<open>node.class_type\<close> of every entry and so throws on a
  \<^verbatim>\<open>null\<close> entry before anything is stored.
\<close>

definition comfy_passes :: "jsval list \<Rightarrow> (string \<times> jsval) list \<Rightarrow> (string \<times> jsval) list" where
  "comfy_passes nodes result0 =
     (if list_ex nullish nodes then result0
      else
        (case for_each comfy_node nodes result0 of
           Throw result \<Rightarrow> result
         | Return u \<Rightarrow> result0
         | Next result1 \<Rightarrow>
             (let result2 =
                    (if \<not> truthy (rget result1 ''prompt'') \<and> \<not> truthy (rget result1 ''negativePrompt'')
                     then foldl (\<lambda>result node. comfy_text_fallback node result) result1 nodes
                     else result1)
              in case (if (rget result2 ''steps'' = JNum (Fin 0) \<or> rget result2 ''cfgScale'' = JNum (Fin 0))
                          \<and> \<not> truthy (rget result2 ''seed'')
                       then for_each comfy_numeric_fallback nodes result2
                       else Next result2) of
                   Throw result \<Rightarrow> result
                 | Return u \<Rightarrow> result2
                 | Next result3 \<Rightarrow>
                     (let result4 = foldl (\<lambda>result node. comfy_final node result) result3 nodes
                      in if gt (get_prop (rget result4 ''models'') ''length'') 0
                         then obj_set result4 ''model'' (get_prop (rget result4 ''models'') ''0'')
                         else result4))))"

definition parseComfyUIMetadata :: "jsval \<Rightarrow> jsval" where
  "parseComfyUIMetadata metadata =
     (let result0 =
            [(''prompt'', JStr []), (''model'', JStr []), (''width'', JNum (Fin 0)),
             (''height'', JNum (Fin 0)), (''steps'', JNum (Fin 0)), (''scheduler'', JStr []),
             (''models'', JArr []), (''loras'', JArr []), (''board'', JStr []),
             (''negativePrompt'', JStr []), (''cfgScale'', JNum (Fin 0)), (''seed'', JUndefined)]
      in JObj
           (case parse_if_string (opt_prop metadata ''workflow'') of
              Inl e \<Rightarrow> result0
            | Inr workflow \<Rightarrow>
                (case parse_if_string (opt_prop metadata ''prompt'') of
                   Inl e \<Rightarrow> result0
                 | Inr prompt \<Rightarrow>
                     (let dataSource = lor prompt workflow
                      in if \<not> truthy dataSource then result0
                         else comfy_passes (map snd (Object_entries dataSource)) result0))))"

section \<open>Board name resolver\<close>

text \<open>
  \<^verbatim>\<open>boardIdCache\<close> and \<^verbatim>\<open>boardCounter\<close> are module-level variables; the model passes them
  as a state. The counter is a natural number (a double counts exactly up to \<open>2^53\<close>).

  A \<^verbatim>\<open>Map\<close> compares its keys by \<^verbatim>\<open>SameValueZero\<close>: a primitive by its value, an object or an
  array by its identity, so that two objects with the same properties are two keys. A
  \<^typ>\<open>jsval\<close> has no identity; a key is therefore a primitive value or the address of an
  object. The declared type of \<^verbatim>\<open>boardId\<close> is \<^verbatim>\<open>string\<close>, but the callers pass whatever truthy
  value the metadata holds.
\<close>

datatype map_key = KUndefined | KNull | KBool bool | KNum number | KStr string | KRef nat

text \<open>
  The key that a value is as an argument of \<^verbatim>\<open>has\<close>, \<^verbatim>\<open>get\<close> and \<^verbatim>\<open>set\<close>; \<open>address\<close> is the
  address of the value, which is its key when it is an object or an array.
\<close>

definition key_of :: "nat \<Rightarrow> jsval \<Rightarrow> map_key" where
  "key_of address v = (case v of
      JUndefined \<Rightarrow> KUndefined
    | JNull \<Rightarrow> KNull
    | JBool b \<Rightarrow> KBool b
    | JNum n \<Rightarrow> KNum n
    | JStr t \<Rightarrow> KStr t
    | JArray xs c \<Rightarrow> KRef address
    | JObj kvs \<Rightarrow> KRef address)"

record board_state =
  boardIdCache :: "map_key \<rightharpoonup> string"
  boardCounter :: nat

definition initial_boards :: board_state where
  "initial_boards = \<lparr> boardIdCache = Map.empty, boardCounter = 1 \<rparr>"

definition getFriendlyBoardName :: "map_key \<Rightarrow> board_state \<Rightarrow> string \<times> board_state" where
  "getFriendlyBoardName boardId s =
     (case boardIdCache s boardId of
        Some name \<Rightarrow> (name, s)
      | None \<Rightarrow>
          (let friendlyName = ''My Board '' @ show_nat (boardCounter s)
           in (friendlyName,
               s\<lparr> boardIdCache := (boardIdCache s)(boardId \<mapsto> friendlyName),
                  boardCounter := boardCounter s + 1 \<rparr>)))"

text \<open>The state after resolving a sequence of board ids, one call after the other.\<close>

primrec resolve_all :: "map_key list \<Rightarrow> board_state \<Rightarrow> board_state" where
  "resolve_all [] s = s"
| "resolve_all (b # bs) s = resolve_all bs (snd (getFriendlyBoardName b s))"

definition board_inv :: "board_state \<Rightarrow> bool" where
  "board_inv s =
     ((\<forall>b name. boardIdCache s b = Some name \<longrightarrow>
         (\<exists>i. i < boardCounter s \<and> name = ''My Board '' @ show_nat i))
      \<and> (\<forall>b c name. boardIdCache s b = Some name \<longrightarrow> boardIdCache s c = Some name \<longrightarrow> b = c))"

section \<open>Board\<close>

text \<open>
  The functions that resolve a board id return the friendly name with the new state of
  the cache; on every other path the state is the one they were given. A call resolves
  at most one board id, the first it finds; \<open>address\<close> is the address of that value in
  the metadata it was read from, its key in the cache when it is an object or an array.
\<close>

definition extractBoardFromWorkflow :: "nat \<Rightarrow> jsval \<Rightarrow> board_state \<Rightarrow> (error + jsval) \<times> board_state" where
  "extractBoardFromWorkflow address workflow s =
     (if \<not> (truthy workflow \<and> truthy (get_prop workflow ''nodes'')) then (Inr JNull, s)
      else
        (case iterate (get_prop workflow ''nodes'') of
           Inl e \<Rightarrow> (Inl e, s)
         | Inr nodes \<Rightarrow>
             (case for_each
                     (\<lambda>node (u :: unit).
                        if nullish node then Throw u
                        else
                          (let data = get_prop node ''data'';
                               type = opt_prop data ''type'';
                               inputs = opt_prop data ''inputs'';
                               boardInput = opt_prop inputs ''board'';
                               boardValue = opt_prop boardInput ''value''
                           in if truthy data \<and> truthy type
                                 \<and> (type = JStr ''l2i'' \<or> type = JStr ''canvas_output'')
                                 \<and> truthy inputs \<and> truthy boardInput
                                 \<and> truthy boardValue \<and> truthy (get_prop boardValue ''board_id'')
                              then Return (get_prop boardValue ''board_id'')
                              else Next u))
                     nodes () of
                Return boardId \<Rightarrow>
                  (Inr (JStr (fst (getFriendlyBoardName (key_of address boardId) s))),
                   snd (getFriendlyBoardName (key_of address boardId) s))
              | Next u \<Rightarrow> (Inr JNull, s)
              | Throw u \<Rightarrow> (Inl TypeError, s))))"

text \<open>
  The string fields tried first, in order:
  \<^verbatim>\<open>if (metadata.k && typeof metadata.k === 'string') return metadata.k.trim()\<close>.
\<close>

definition board_string_field :: "jsval \<Rightarrow> string list \<Rightarrow> jsval option" where
  "board_string_field metadata ks =
     map_option (\<lambda>v. JStr (trim (str_of v)))
       (find (\<lambda>v. truthy v \<and> is_string v) (map (get_prop metadata) ks))"

text \<open>\<^verbatim>\<open>metadata.board\<close> as an object: its first truthy \<^verbatim>\<open>name\<close>, \<^verbatim>\<open>board_name\<close> or \<^verbatim>\<open>id\<close>.\<close>

definition board_object_field :: "jsval \<Rightarrow> jsval option" where
  "board_object_field metadata =
     (let board = get_prop metadata ''board'' in
      if truthy board \<and> is_object board then
        find truthy (map (get_prop board) [''name'', ''board_name'', ''id''])
      else None)"

text \<open>The board id of \<^verbatim>\<open>canvas_v2_metadata\<close>, direct or under its \<^verbatim>\<open>board\<close> object.\<close>

definition canvas_board_id :: "jsval \<Rightarrow> jsval option" where
  "canvas_board_id metadata =
     (let canvasData = get_prop metadata ''canvas_v2_metadata'' in
      if truthy canvasData \<and> is_object canvasData then
        (if truthy (get_prop canvasData ''board_id'') then Some (get_prop canvasData ''board_id'')
         else if truthy (get_prop canvasData ''board'') \<and> is_object (get_prop canvasData ''board'')
                 \<and> truthy (get_prop (get_prop canvasData ''board'') ''board_id'')
         then Some (get_prop (get_prop canvasData ''board'') ''board_id'')
         else None)
      else None)"

text \<open>The last resort: any property whose name holds \<^verbatim>\<open>board\<close> and whose value is a string.\<close>

definition board_named_field :: "jsval \<Rightarrow> jsval" where
  "board_named_field metadata =
     (case find (\<lambda>kv. includes_str (toLowerCase (fst kv)) ''board'' \<and> is_string (snd kv)
                       \<and> trim (str_of (snd kv)) \<noteq> [])
             (Object_entries metadata) of
        Some kv \<Rightarrow> JStr (trim (str_of (snd kv)))
      | None \<Rightarrow> JStr ''Uncategorized'')"

text \<open>
  In the source the workflow is looked at under \<^verbatim>\<open>typeof metadata.workflow === 'object'\<close>,
  so the inner branch for a workflow given as a string is never taken.
\<close>

definition extractBoardFromInvokeAI :: "nat \<Rightarrow> jsval \<Rightarrow> board_state \<Rightarrow> (error + jsval) \<times> board_state" where
  "extractBoardFromInvokeAI address metadata s =
     (if nullish metadata then (Inl TypeError, s)
      else
        (case board_string_field metadata
                [''board_name'', ''board_id'', ''boardName'', ''boardId'', ''Board Name''] of
           Some name \<Rightarrow> (Inr name, s)
         | None \<Rightarrow>
             (case board_object_field metadata of
                Some name \<Rightarrow> (Inr name, s)
              | None \<Rightarrow>
                  (case board_string_field metadata [''board''] of
                     Some name \<Rightarrow> (Inr name, s)
                   | None \<Rightarrow>
                       (case canvas_board_id metadata of
                          Some boardId \<Rightarrow>
                            (Inr (JStr (fst (getFriendlyBoardName (key_of address boardId) s))),
                             snd (getFriendlyBoardName (key_of address boardId) s))
                        | None \<Rightarrow>
                            (let workflow = get_prop metadata ''workflow'';
                                 found = (if truthy workflow \<and> is_object workflow
                                          then extractBoardFromWorkflow address workflow s
                                          else (Inr JNull, s))
                             in case fst found of
                                  Inl e \<Rightarrow> (Inl e, snd found)
                                | Inr boardInfo \<Rightarrow>
                                    if truthy boardInfo then (Inr boardInfo, snd found)
                                    else (Inr (board_named_field metadata), snd found)))))))"

definition extractBoard :: "nat \<Rightarrow> ImageMetadata \<Rightarrow> board_state \<Rightarrow> (error + jsval) \<times> board_state" where
  "extractBoard address m s =
     (if isInvokeAIMetadata m then extractBoardFromInvokeAI address (object_of m) s
      else (Inr (JStr ''Uncategorized''), s))"

section \<open>Field extractors\<close>

text \<open>
  \<^verbatim>\<open>if (metadata.parameters && typeof metadata.parameters === 'string')\<close>: the Automatic1111
  reading of an embedded parameters string, whatever the variant.
\<close>

definition embedded_a1111 :: "jsval \<Rightarrow> jsval option" where
  "embedded_a1111 metadata =
     (let parameters = get_prop metadata ''parameters'' in
      if truthy parameters \<and> is_string parameters
      then Some (parseA1111Metadata (str_of parameters)) else None)"

definition embedded_field :: "string \<Rightarrow> jsval \<Rightarrow> jsval option" where
  "embedded_field k metadata =
     (case embedded_a1111 metadata of
        None \<Rightarrow> None
      | Some a1111Data \<Rightarrow> if truthy (get_prop a1111Data k) then Some (get_prop a1111Data k) else None)"

subsection \<open>Prompt\<close>

text \<open>
  The InvokeAI branch of \<^verbatim>\<open>extractPrompt\<close>; \<open>Next\<close> when it falls through to the branches
  after it. \<^verbatim>\<open>prompt += ' ### ' + metadata.negative_prompt\<close> converts both prompts to
  strings.
\<close>

definition invoke_prompt :: "jsval \<Rightarrow> (unit, jsval) flow" where
  "invoke_prompt metadata =
     (let positive = get_prop metadata ''positive_prompt'';
          negative = get_prop metadata ''negative_prompt'';
          prompt = get_prop metadata ''prompt''
      in if truthy positive then
           (if truthy negative then
              (if ToPrimitive_throws negative \<or> ToPrimitive_throws positive then Throw ()
               else Return (JStr (ToString positive @ '' ### '' @ ToString negative)))
            else Return positive)
         else if is_string prompt then Return prompt
         else
           (case prompt of
              JArray ps c \<Rightarrow>
                (let mapped = map (\<lambda>p. if is_string p then p else lor (opt_prop p ''prompt'') (JStr [])) ps
                 in if list_ex (\<lambda>p. \<not> is_string p) mapped then Throw ()
                    else Return (JStr (join '' '' (filter (\<lambda>t. trim t \<noteq> []) (map str_of mapped)))))
            | JNull \<Rightarrow> Throw ()
            | JObj kvs \<Rightarrow> if truthy (get_prop prompt ''prompt'') then Return (get_prop prompt ''prompt'')
                          else Next ()
            | _ \<Rightarrow> Next ()))"

definition a1111_prompt_of :: "jsval \<Rightarrow> error + jsval" where
  "a1111_prompt_of metadata =
     (let params = get_prop metadata ''parameters'' in
      if \<not> is_string params then Inl TypeError
      else Inr (JStr (a1111_prompt (str_of params))))"

text \<open>The ComfyUI branch, in its own \<^verbatim>\<open>try\<close>: the text found, if any.\<close>

definition comfy_prompt_text :: "jsval \<Rightarrow> jsval option" where
  "comfy_prompt_text metadata =
     (case parse_if_string (get_prop metadata ''prompt'') of
        Inl e \<Rightarrow> None
      | Inr prompt \<Rightarrow>
          if \<not> truthy prompt then None
          else
            (let nodes = map snd (Object_entries prompt);
                 text_of = (\<lambda>node. (let inputs = get_prop node ''inputs'' in
                              if truthy inputs \<and> truthy (get_prop inputs ''text'')
                                 \<and> is_string (get_prop inputs ''text'')
                              then Some (JStr (trim (str_of (get_prop inputs ''text'')))) else None))
             in case for_each
                       (\<lambda>node (u :: unit).
                          if nullish node then Throw u
                          else if \<not> truthy (get_prop node ''class_type'') then Next u
                          else if \<not> is_string (get_prop node ''class_type'') then Throw u
                          else if includes_str (toLowerCase (str_of (get_prop node ''class_type''))) ''text''
                                  \<and> includes_str (toLowerCase (str_of (get_prop node ''class_type''))) ''encode''
                          then (case text_of node of Some t \<Rightarrow> Return t | None \<Rightarrow> Next u)
                          else Next u)
                       nodes () of
                  Return t \<Rightarrow> Some t
                | Throw u \<Rightarrow> None
                | Next u \<Rightarrow>
                    (case for_each
                            (\<lambda>node (u :: unit).
                               if nullish node then Throw u
                               else (case text_of node of Some t \<Rightarrow> Return t | None \<Rightarrow> Next u))
                            nodes () of
                       Return t \<Rightarrow> Some t
                     | _ \<Rightarrow> None)))"

definition extractPrompt :: "ImageMetadata \<Rightarrow> error + jsval" where
  "extractPrompt m =
     (let metadata = object_of m in
      if \<not> in_operand metadata then Inl TypeError
      else
        (case cached_field truthy ''prompt'' metadata of
           Some prompt \<Rightarrow> Inr prompt
         | None \<Rightarrow>
             (case embedded_field ''prompt'' metadata of
                Some prompt \<Rightarrow> Inr prompt
              | None \<Rightarrow>
                  (case (if isInvokeAIMetadata m then invoke_prompt metadata else Next ()) of
                     Return prompt \<Rightarrow> Inr prompt
                   | Throw u \<Rightarrow> Inl TypeError
                   | Next u \<Rightarrow>
                       if isAutomatic1111Metadata m then a1111_prompt_of metadata
                       else
                         (case (if isComfyUIMetadata m then comfy_prompt_text metadata else None) of
                            Some t \<Rightarrow> Inr t
                          | None \<Rightarrow>
                              (case cached_field (\<lambda>v. truthy v \<and> is_string v) ''prompt'' metadata of
                                 Some prompt \<Rightarrow> Inr prompt
                               | None \<Rightarrow> Inr (JStr [])))))))"

definition extractNegativePrompt :: "ImageMetadata \<Rightarrow> error + jsval" where
  "extractNegativePrompt m =
     (let metadata = object_of m in
      if \<not> in_operand metadata then Inl TypeError
      else
        (case cached_field truthy ''negativePrompt'' metadata of
           Some negativePrompt \<Rightarrow> Inr negativePrompt
         | None \<Rightarrow>
             (case cached_field (\<lambda>v. truthy v \<and> is_string v) ''negativePrompt'' metadata of
                Some negativePrompt \<Rightarrow> Inr negativePrompt
              | None \<Rightarrow> Inr JUndefined)))"

subsection \<open>CFG scale, steps and seed\<close>

text \<open>
  The ComfyUI branch of the three numeric extractors, in its own \<^verbatim>\<open>try\<close>: the first
  \<^verbatim>\<open>KSampler\<close> entry of the workflow whose input \<open>k\<close> is truthy and parses to a number.
\<close>

definition comfy_ksampler_input :: "(jsval \<Rightarrow> number) \<Rightarrow> string \<Rightarrow> jsval \<Rightarrow> jsval option" where
  "comfy_ksampler_input parse k metadata =
     (case parse_if_string (get_prop metadata ''workflow'') of
        Inl e \<Rightarrow> None
      | Inr workflow \<Rightarrow>
          if \<not> truthy workflow then None
          else
            (case for_each
                    (\<lambda>node (u :: unit).
                       if nullish node then Throw u
                       else if get_prop node ''class_type'' = JStr ''KSampler''
                               \<and> truthy (get_prop node ''inputs'')
                               \<and> truthy (get_prop (get_prop node ''inputs'') k)
                       then (if ToPrimitive_throws (get_prop (get_prop node ''inputs'') k) then Throw u
                             else if \<not> isNaN (JNum (parse (get_prop (get_prop node ''inputs'') k)))
                             then Return (JNum (parse (get_prop (get_prop node ''inputs'') k)))
                             else Next u)
                       else Next u)
                    (map snd (Object_entries workflow)) () of
               Return x \<Rightarrow> Some x
             | _ \<Rightarrow> None))"

text \<open>
  The Automatic1111 branch: the group of the pattern, parsed; \<open>Next\<close> when the pattern
  does not match and the function goes on to the branches after it.
\<close>

definition a1111_number :: "(string \<Rightarrow> string option) \<Rightarrow> (jsval \<Rightarrow> number) \<Rightarrow> jsval \<Rightarrow> (unit, jsval) flow" where
  "a1111_number pattern parse metadata =
     (let params = get_prop metadata ''parameters'' in
      if \<not> is_string params then Throw ()
      else (case pattern (str_of params) of
              None \<Rightarrow> Next ()
            | Some g \<Rightarrow>
                Return (if isNaN (JNum (parse (JStr g))) then JUndefined else JNum (parse (JStr g)))))"

definition is_cached_number :: "jsval \<Rightarrow> bool" where
  "is_cached_number v = (v \<noteq> JUndefined \<and> is_number v)"

definition extractCfgScale :: "ImageMetadata \<Rightarrow> error + jsval" where
  "extractCfgScale m =
     (let metadata = object_of m in
      if \<not> in_operand metadata then Inl TypeError
      else
        (case cached_field is_cached_number ''cfgScale'' metadata of
           Some cfgScale \<Rightarrow> Inr cfgScale
         | None \<Rightarrow>
             (case embedded_field ''cfgScale'' metadata of
                Some cfgScale \<Rightarrow> Inr cfgScale
              | None \<Rightarrow>
                  if isInvokeAIMetadata m then Inr (get_prop metadata ''cfg_scale'')
                  else
                    (case (if isAutomatic1111Metadata m
                           then a1111_number match_CFG_scale parseFloat metadata else Next ()) of
                       Return x \<Rightarrow> Inr x
                     | Throw u \<Rightarrow> Inl TypeError
                     | Next u \<Rightarrow>
                         (case (if isComfyUIMetadata m
                                then comfy_ksampler_input parseFloat ''cfg'' metadata else None) of
                            Some x \<Rightarrow> Inr x
                          | None \<Rightarrow>
                              (case cached_field is_cached_number ''cfgScale'' metadata of
                                 Some cfgScale \<Rightarrow> Inr cfgScale
                               | None \<Rightarrow> Inr JUndefined))))))"

definition extractSteps :: "ImageMetadata \<Rightarrow> error + jsval" where
  "extractSteps m =
     (let metadata = object_of m in
      if \<not> in_operand metadata then Inl TypeError
      else
        (case cached_field is_cached_number ''steps'' metadata of
           Some steps \<Rightarrow> Inr steps
         | None \<Rightarrow>
             (case cached_field is_cached_number ''steps'' metadata of
                Some steps \<Rightarrow> Inr steps
              | None \<Rightarrow>
                  (case embedded_field ''steps'' metadata of
                     Some steps \<Rightarrow> Inr steps
                   | None \<Rightarrow>
                       if isInvokeAIMetadata m then Inr (get_prop metadata ''steps'')
                       else
                         (case (if isAutomatic1111Metadata m
                                then a1111_number match_Steps parseInt metadata else Next ()) of
                            Return x \<Rightarrow> Inr x
                          | Throw u \<Rightarrow> Inl TypeError
                          | Next u \<Rightarrow>
                              (case (if isComfyUIMetadata m
                                     then comfy_ksampler_input parseInt ''steps'' metadata else None) of
                                 Some x \<Rightarrow> Inr x
                               | None \<Rightarrow> Inr JUndefined))))))"

definition extractSeed :: "ImageMetadata \<Rightarrow> error + jsval" where
  "extractSeed m =
     (let metadata = object_of m in
      if \<not> in_operand metadata then Inl TypeError
      else
        (case cached_field is_cached_number ''seed'' metadata of
           Some seed \<Rightarrow> Inr seed
         | None \<Rightarrow>
             (case embedded_field ''seed'' metadata of
                Some seed \<Rightarrow> Inr seed
              | None \<Rightarrow>
                  if isInvokeAIMetadata m then Inr (get_prop metadata ''seed'')
                  else
                    (case (if isAutomatic1111Metadata m
                           then a1111_number match_Seed parseInt metadata else Next ()) of
                       Return x \<Rightarrow> Inr x
                     | Throw u \<Rightarrow> Inl TypeError
                     | Next u \<Rightarrow>
                         (case (if isComfyUIMetadata m
                                then comfy_ksampler_input parseInt ''seed'' metadata else None) of
                            Some x \<Rightarrow> Inr x
                          | None \<Rightarrow>
                              (case cached_field is_cached_number ''seed'' metadata of
                                 Some seed \<Rightarrow> Inr seed
                               | None \<Rightarrow> Inr JUndefined))))))"

subsection \<open>Dimensions\<close>

text \<open>
  \<^verbatim>\<open>if (o.width && o.height) return `${o.width}x${o.height}`\<close>; \<open>Next\<close> when the test fails,
  and a throw when the template literal cannot convert the width or the height.
\<close>

definition dimensions_of :: "jsval \<Rightarrow> (unit, jsval) flow" where
  "dimensions_of obj =
     (if truthy (get_prop obj ''width'') \<and> truthy (get_prop obj ''height'') then
        (if ToPrimitive_throws (get_prop obj ''width'') \<or> ToPrimitive_throws (get_prop obj ''height'')
         then Throw ()
         else Return (JStr (ToString (get_prop obj ''width'') @ ''x''
                            @ ToString (get_prop obj ''height''))))
      else Next ())"

definition comfy_dimensions :: "jsval \<Rightarrow> jsval option" where
  "comfy_dimensions metadata =
     (case parse_if_string (get_prop metadata ''workflow'') of
        Inl e \<Rightarrow> None
      | Inr workflow \<Rightarrow>
          if \<not> truthy workflow then None
          else
            (case for_each
                    (\<lambda>node (u :: unit).
                       if nullish node then Throw u
                       else if get_prop node ''class_type'' = JStr ''EmptyLatentImage''
                               \<and> truthy (get_prop node ''inputs'')
                       then dimensions_of (get_prop node ''inputs'')
                       else Next u)
                    (map snd (Object_entries workflow)) () of
               Return d \<Rightarrow> Some d
             | _ \<Rightarrow> None))"

definition extractDimensions :: "ImageMetadata \<Rightarrow> error + jsval" where
  "extractDimensions m =
     (let metadata = object_of m in
      if \<not> in_operand metadata then Inl TypeError
      else
        (case (case normalized_of metadata of
                 None \<Rightarrow> Next ()
               | Some normalized \<Rightarrow> dimensions_of normalized) of
           Return d \<Rightarrow> Inr d
         | Throw u \<Rightarrow> Inl TypeError
         | Next u \<Rightarrow>
             (case (case embedded_a1111 metadata of
                      None \<Rightarrow> Next ()
                    | Some a1111Data \<Rightarrow> dimensions_of a1111Data) of
                Return d \<Rightarrow> Inr d
              | Throw u \<Rightarrow> Inl TypeError
              | Next u \<Rightarrow>
                  (case (if isInvokeAIMetadata m then dimensions_of metadata else Next ()) of
                     Return d \<Rightarrow> Inr d
                   | Throw u \<Rightarrow> Inl TypeError
                   | Next u \<Rightarrow>
                       (case (if isAutomatic1111Metadata m
                              then (let params = get_prop metadata ''parameters'' in
                                    if \<not> is_string params then Throw ()
                                    else (case match_Size_group (str_of params) of
                                            Some g \<Rightarrow> Return (JStr g)
                                          | None \<Rightarrow> Next ()))
                              else Next ()) of
                          Return d \<Rightarrow> Inr d
                        | Throw u \<Rightarrow> Inl TypeError
                        | Next u \<Rightarrow>
                            (case (if isComfyUIMetadata m then comfy_dimensions metadata else None) of
                               Some d \<Rightarrow> Inr d
                             | None \<Rightarrow> Inr JUndefined))))))"

section \<open>Container decoding\<close>

type_synonym byte = "8 word"

text \<open>
  \<^verbatim>\<open>DataView.getUint32\<close> and \<^verbatim>\<open>getUint16\<close> read big-endian and throw a \<^verbatim>\<open>RangeError\<close> when
  the read would pass the end of the buffer. \<^verbatim>\<open>ArrayBuffer.slice\<close> clamps its bounds.
\<close>

definition getUint32 :: "byte list \<Rightarrow> nat \<Rightarrow> error + int" where
  "getUint32 buffer offset =
     (if offset + 4 \<le> length buffer then
        Inr (uint (buffer ! offset) * 16777216 + uint (buffer ! (offset + 1)) * 65536
             + uint (buffer ! (offset + 2)) * 256 + uint (buffer ! (offset + 3)))
      else Inl RangeError)"

definition getUint16 :: "byte list \<Rightarrow> nat \<Rightarrow> error + int" where
  "getUint16 buffer offset =
     (if offset + 2 \<le> length buffer then
        Inr (uint (buffer ! offset) * 256 + uint (buffer ! (offset + 1)))
      else Inl RangeError)"

definition slice :: "byte list \<Rightarrow> nat \<Rightarrow> nat \<Rightarrow> byte list" where
  "slice buffer begin end = take (end - begin) (drop begin buffer)"

text \<open>
  \<^verbatim>\<open>TextDecoder.decode\<close> is a parameter of the functions that read text from the buffer:
  UTF-8 decoding yields code units the string type does not have. On bytes below 128
  it is \<open>ascii_decode\<close>.
\<close>

definition ascii_decode :: "byte list \<Rightarrow> string" where
  "ascii_decode bs = map (\<lambda>b. char_of (unat b)) bs"

subsection \<open>PNG\<close>

text \<open>
  The statement of the chunk loop that records a \<^verbatim>\<open>tEXt\<close> chunk:
  \<^verbatim>\<open>const [keyword, text] = chunkString.split('\0')\<close>, kept when the keyword is one of the
  four and the text is not empty.
\<close>

type_synonym chunks = "(string \<times> string) list"

text \<open>\<^verbatim>\<open>chunks[keyword] = text\<close> on the object \<^verbatim>\<open>chunks\<close>, a list of its properties.\<close>

definition set_chunk :: "string \<Rightarrow> string \<Rightarrow> chunks \<Rightarrow> chunks" where
  "set_chunk keyword text chunks =
     (if map_of chunks keyword \<noteq> None
      then map (\<lambda>kv. if fst kv = keyword then (keyword, text) else kv) chunks
      else chunks @ [(keyword, text)])"

definition record_chunk :: "string \<Rightarrow> chunks \<Rightarrow> chunks" where
  "record_chunk chunkString chunks =
     (case split_char (CHR 0x00) chunkString of
        keyword # text # rest \<Rightarrow>
          if keyword \<in> set [''invokeai_metadata'', ''parameters'', ''workflow'', ''prompt''] \<and> text \<noteq> []
          then set_chunk keyword text chunks else chunks
      | _ \<Rightarrow> chunks)"

function scan_chunks ::
  "(byte list \<Rightarrow> string) \<Rightarrow> byte list \<Rightarrow> nat \<Rightarrow> chunks \<Rightarrow> error + chunks" where
  "scan_chunks decode buffer offset chunks =
     (if offset < length buffer then
        (case getUint32 buffer offset of
           Inl e \<Rightarrow> Inl e
         | Inr len \<Rightarrow>
             (let type = decode (slice buffer (offset + 4) (offset + 8));
                  chunks' =
                    (if type = ''tEXt''
                     then record_chunk (decode (slice buffer (offset + 8) (offset + 8 + nat len))) chunks
                     else chunks)
              in if type = ''IEND'' then Inr chunks'
                 else scan_chunks decode buffer (offset + 12 + nat len) chunks'))
      else Inr chunks)"
  by pat_completeness auto
termination
  by (relation "measure (\<lambda>(decode, buffer, offset, chunks). length buffer - offset)") auto

declare scan_chunks.simps [simp del]

text \<open>\<^verbatim>\<open>try { x = JSON.parse(text) } catch { x = text }\<close>\<close>

definition parse_or_keep :: "string \<Rightarrow> jsval" where
  "parse_or_keep text = (case JSON_parse text of Inl e \<Rightarrow> JStr text | Inr v \<Rightarrow> v)"

text \<open>\<^verbatim>\<open>try { metadata.normalizedMetadata = normalized } catch { }\<close>\<close>

definition with_normalized :: "jsval \<Rightarrow> jsval \<Rightarrow> jsval" where
  "with_normalized metadata normalized =
     (case set_normalizedMetadata metadata normalized of Inl e \<Rightarrow> metadata | Inr m \<Rightarrow> m)"

text \<open>\<^verbatim>\<open>chunks.k\<close> is truthy: the chunk was recorded, with a text that is not empty.\<close>

definition chunk :: "chunks \<Rightarrow> string \<Rightarrow> string option" where
  "chunk chunks k =
     (case map_of chunks k of None \<Rightarrow> None | Some text \<Rightarrow> if text = [] then None else Some text)"

text \<open>
  The cascade after the loop. \<open>None\<close> is the \<^verbatim>\<open>null\<close> the function returns: no chunk was
  recognised, or the InvokeAI text is the JSON \<^verbatim>\<open>null\<close>. The \<^verbatim>\<open>JSON.parse\<close> of the InvokeAI
  branch stands in no \<^verbatim>\<open>try\<close>.
\<close>

definition classify_chunks :: "chunks \<Rightarrow> error + ImageMetadata option" where
  "classify_chunks chunks =
     (case chunk chunks ''workflow'' of
        Some workflow \<Rightarrow>
          (let workflowData = parse_or_keep workflow;
               promptData = (case chunk chunks ''prompt'' of
                               None \<Rightarrow> JNull
                             | Some prompt \<Rightarrow> parse_or_keep prompt);
               comfyMetadata = JObj [(''workflow'', workflowData), (''prompt'', promptData)]
           in Inr (Some (ComfyUIMetadata
                          (with_normalized comfyMetadata (parseComfyUIMetadata comfyMetadata)))))
      | None \<Rightarrow>
          (case chunk chunks ''invokeai_metadata'' of
             Some text \<Rightarrow>
               (case JSON_parse text of
                  Inl e \<Rightarrow> Inl e
                | Inr metadata \<Rightarrow>
                    if metadata = JNull then Inr None
                    else Inr (Some (InvokeAIMetadata
                                     (with_normalized metadata (parseInvokeAIMetadata metadata)))))
           | None \<Rightarrow>
               (case chunk chunks ''parameters'' of
                  Some parameters \<Rightarrow>
                    Inr (Some (Automatic1111Metadata
                                (with_normalized (JObj [(''parameters'', JStr parameters)])
                                   (parseA1111Metadata parameters))))
                | None \<Rightarrow>
                    (case chunk chunks ''prompt'' of
                       Some prompt \<Rightarrow>
                         (let comfyMetadata = JObj [(''prompt'', parse_or_keep prompt)]
                          in Inr (Some (ComfyUIMetadata
                                         (with_normalized comfyMetadata
                                            (parseComfyUIMetadata comfyMetadata)))))
                     | None \<Rightarrow> Inr None))))"

text \<open>
  \<^verbatim>\<open>parsePNGMetadata\<close> is an \<^verbatim>\<open>async\<close> function: \<open>Inl\<close> is the error its promise rejects
  with, \<open>Inr\<close> the value it resolves to.
\<close>

definition parsePNGMetadata :: "(byte list \<Rightarrow> string) \<Rightarrow> byte list \<Rightarrow> error + ImageMetadata option" where
  "parsePNGMetadata decode buffer =
     (case scan_chunks decode buffer 8 [] of
        Inl e \<Rightarrow> Inl e
      | Inr chunks \<Rightarrow> classify_chunks chunks)"

subsection \<open>JPEG\<close>

text \<open>
  \<^verbatim>\<open>parse\<close> of the library \<^verbatim>\<open>exifr\<close> is a parameter: for a buffer it gives the object of
  the picked EXIF fields, or throws. The whole of \<^verbatim>\<open>parseJPEGMetadata\<close> stands in a \<^verbatim>\<open>try\<close>
  that awaits the library and returns \<^verbatim>\<open>null\<close> on any error. Modelled from the spec:
  in place of the missing guard \<^verbatim>\<open>isInvokeAIMetadata\<close>, text that parses as JSON is the
  InvokeAI variant.
\<close>

definition exif_text :: "jsval \<Rightarrow> string option" where
  "exif_text exifData =
     (if \<not> truthy exifData then None
      else
        map_option (\<lambda>v. trim (str_of v))
          (find (\<lambda>v. truthy v \<and> is_string v \<and> trim (str_of v) \<noteq> [])
             (map (get_prop exifData)
                [''userComment'', ''imageDescription'', ''description'', ''xpComment'', ''xpTitle''])))"

definition parseJPEGMetadata :: "(byte list \<Rightarrow> error + jsval) \<Rightarrow> byte list \<Rightarrow> ImageMetadata option" where
  "parseJPEGMetadata exifr_parse buffer =
     (case exifr_parse buffer of
        Inl e \<Rightarrow> None
      | Inr exifData \<Rightarrow>
          (case exif_text exifData of
             None \<Rightarrow> None
           | Some metadataText \<Rightarrow>
               (case JSON_parse metadataText of
                  Inr parsedMetadata \<Rightarrow>
                    if parsedMetadata = JNull then None
                    else Some (InvokeAIMetadata
                                 (with_normalized parsedMetadata (parseInvokeAIMetadata parsedMetadata)))
                | Inl e \<Rightarrow>
                    Some (Automatic1111Metadata
                            (JObj [(''parameters'', JStr metadataText),
                                   (''normalizedMetadata'', parseA1111Metadata metadataText)])))))"

subsection \<open>The entry point\<close>

text \<open>
  \<^verbatim>\<open>parseImageMetadata\<close> reads the signature inside a \<^verbatim>\<open>try\<close> whose \<^verbatim>\<open>catch\<close> returns
  \<^verbatim>\<open>null\<close>. It returns the promise of \<^verbatim>\<open>parsePNGMetadata\<close> without awaiting it, so a
  rejection of that promise passes the \<^verbatim>\<open>catch\<close> and is the rejection of the entry point's
  own promise.
\<close>

definition parseImageMetadata ::
  "(byte list \<Rightarrow> string) \<Rightarrow> (byte list \<Rightarrow> error + jsval) \<Rightarrow> byte list \<Rightarrow> error + ImageMetadata option" where
  "parseImageMetadata decode exifr_parse buffer =
     (case getUint32 buffer 0 of
        Inl e \<Rightarrow> Inr None
      | Inr w0 \<Rightarrow>
          (case (if w0 = 0x89504E47 then map_sum id (\<lambda>w1. w1 = 0x0D0A1A0A) (getUint32 buffer 4)
                 else Inr False) of
             Inl e \<Rightarrow> Inr None
           | Inr True \<Rightarrow> parsePNGMetadata decode buffer
           | Inr False \<Rightarrow>
               (case getUint16 buffer 0 of
                  Inl e \<Rightarrow> Inr None
                | Inr h \<Rightarrow>
                    if h = 0xFFD8 then Inr (parseJPEGMetadata exifr_parse buffer) else Inr None)))"


section \<open>Test images\<close>

text \<open>
  PNG files for the concrete statements below: the signature, and chunks of a length, a
  type, the data and four bytes in place of the CRC, which the reader skips.
\<close>

definition png_signature :: "byte list" where
  "png_signature = [0x89, 0x50, 0x4E, 0x47, 0x0D, 0x0A, 0x1A, 0x0A]"

definition ascii_encode :: "string \<Rightarrow> byte list" where
  "ascii_encode s = map (\<lambda>c. of_nat (of_char c)) s"

definition uint32_bytes :: "int \<Rightarrow> byte list" where
  "uint32_bytes n =
     [of_int (n div 16777216), of_int (n div 65536 mod 256), of_int (n div 256 mod 256),
      of_int (n mod 256)]"

definition png_chunk :: "string \<Rightarrow> byte list \<Rightarrow> byte list" where
  "png_chunk type data =
     uint32_bytes (int (length data)) @ ascii_encode type @ data @ [0, 0, 0, 0]"

definition text_chunk :: "string \<Rightarrow> string \<Rightarrow> byte list" where
  "text_chunk keyword text = png_chunk ''tEXt'' (ascii_encode keyword @ [0] @ ascii_encode text)"

definition png_file :: "byte list list \<Rightarrow> byte list" where
  "png_file chunks = png_signature @ concat chunks @ png_chunk ''IEND'' []"

text \<open>The \<^verbatim>\<open>parameters\<close> text of Scenario 1 of the specification, and the metadata built from it.\<close>

definition scenario_parameters :: string where
  "scenario_parameters =
     ''a cat'' @ [CHR 0x0A] @ ''Negative prompt: blurry'' @ [CHR 0x0A]
     @ ''Steps: 20, Sampler: Euler a, CFG scale: 7.5, Seed: 42, Size: 512x768, Model: foo.safetensors''"

definition a1111_metadata :: "string \<Rightarrow> ImageMetadata" where
  "a1111_metadata parameters =
     Automatic1111Metadata
       (JObj [(''parameters'', JStr parameters), (''normalizedMetadata'', parseA1111Metadata parameters)])"

text \<open>A ComfyUI metadata whose cache has every field populated.\<close>

definition cached_sample :: ImageMetadata where
  "cached_sample =
     ComfyUIMetadata
       (JObj [(''normalizedMetadata'',
               JObj [(''prompt'', JStr ''a dog''), (''negativePrompt'', JStr ''blurry''),
                     (''models'', JArr [JStr ''m.safetensors'']), (''loras'', JArr []),
                     (''scheduler'', JStr ''dpmpp_2m''), (''cfgScale'', JNum (Fin 6)),
                     (''steps'', JNum (Fin 30)), (''seed'', JNum (Fin 7)),
                     (''width'', JNum (Fin 512)), (''height'', JNum (Fin 768)),
                     (''board'', JStr ''Landscapes'')])])"

text \<open>An InvokeAI metadata with a board name of its own and another board in its cache.\<close>

definition board_sample :: ImageMetadata where
  "board_sample =
     InvokeAIMetadata
       (JObj [(''board_name'', JStr ''Portraits''),
              (''normalizedMetadata'',
               JObj [(''prompt'', JStr ''a cat''), (''board'', JStr ''Landscapes'')])])"

text \<open>A ComfyUI prompt graph with two checkpoint loaders of the same file.\<close>

definition two_loaders :: jsval where
  "two_loaders =
     JObj [(''prompt'',
            JObj [(''1'', JObj [(''class_type'', JStr ''CheckpointLoaderSimple''),
                                (''inputs'', JObj [(''ckpt_name'', JStr ''sdxl.safetensors'')])]),
                  (''2'', JObj [(''class_type'', JStr ''CheckpointLoaderSimple''),
                                (''inputs'', JObj [(''ckpt_name'', JStr ''sdxl.safetensors'')])])])]"

section \<open>Properties\<close>

subsection \<open>Decimal numerals are injective\<close>

lemma below_ten: "d < 10 \<Longrightarrow> d \<in> {0, 1, 2, 3, 4, 5, 6, 7, 8, 9::nat}"
  by auto

lemma digit_val_digit_char: "d < 10 \<Longrightarrow> digit_val (digit_char d) = int d"
  using below_ten [of d] by (auto simp: digit_val_def digit_char_def)

lemma read_dec_snoc: "read_dec (s @ [c]) = 10 * read_dec s + digit_val c"
  by (simp add: read_dec_def)

lemma read_show_dec: "0 \<le> n \<Longrightarrow> read_dec (show_dec n) = n"
proof (induction n rule: show_dec.induct)
  case (1 n)
  show ?case
  proof (cases "n < 10")
    case True
    with "1.prems" have "nat n < 10" by simp
    with True "1.prems" show ?thesis
      by (subst show_dec.simps) (simp add: read_dec_def digit_val_digit_char)
  next
    case False
    then have ih: "read_dec (show_dec (n div 10)) = n div 10"
      using "1.IH" "1.prems" by simp
    have "nat (n mod 10) < 10"
      by simp
    then have "digit_val (digit_char (nat (n mod 10))) = n mod 10"
      by (simp add: digit_val_digit_char)
    with False ih show ?thesis
      by (subst show_dec.simps) (simp add: read_dec_snoc)
  qed
qed

lemma show_nat_inj: "show_nat m = show_nat n \<Longrightarrow> m = n"
proof -
  assume "show_nat m = show_nat n"
  then have "read_dec (show_dec (int m)) = read_dec (show_dec (int n))"
    by (simp add: show_nat_def)
  then show "m = n"
    by (simp add: read_show_dec)
qed

subsection \<open>The board cache\<close>

lemma board_inv_initial: "board_inv initial_boards"
  by (simp add: board_inv_def initial_boards_def)

lemma board_inv_step:
  assumes "board_inv s"
  shows "board_inv (snd (getFriendlyBoardName b s))"
proof (cases "boardIdCache s b")
  case (Some name)
  then show ?thesis
    using assms by (simp add: getFriendlyBoardName_def)
next
  case None
  define n where "n = ''My Board '' @ show_nat (boardCounter s)"
  define t where "t = snd (getFriendlyBoardName b s)"
  have cache: "boardIdCache t = (boardIdCache s)(b \<mapsto> n)"
    and counter: "boardCounter t = Suc (boardCounter s)"
    using None by (simp_all add: t_def n_def getFriendlyBoardName_def Let_def)
  have fresh: "boardIdCache s c \<noteq> Some n" for c
  proof
    assume "boardIdCache s c = Some n"
    then obtain i where "i < boardCounter s" "n = ''My Board '' @ show_nat i"
      using assms unfolding board_inv_def by blast
    then show False
      using show_nat_inj by (auto simp: n_def)
  qed
  have form: "\<exists>i. i < boardCounter t \<and> name = ''My Board '' @ show_nat i"
    if "boardIdCache t c = Some name" for c name
  proof (cases "c = b")
    case True
    with that cache have "name = n" by simp
    then show ?thesis
      using counter n_def by auto
  next
    case False
    with that cache have "boardIdCache s c = Some name" by simp
    then obtain i where "i < boardCounter s" "name = ''My Board '' @ show_nat i"
      using assms unfolding board_inv_def by blast
    then show ?thesis
      using counter by (intro exI [of _ i]) simp
  qed
  have inj: "c = d"
    if "boardIdCache t c = Some name" "boardIdCache t d = Some name" for c d name
  proof (cases "c = b")
    case cb: True
    with that(1) cache have nm: "name = n" by simp
    show ?thesis
    proof (cases "d = b")
      case True
      with cb show ?thesis by simp
    next
      case False
      with that(2) cache nm have "boardIdCache s d = Some n" by simp
      with fresh show ?thesis by simp
    qed
  next
    case cb: False
    with that(1) cache have c_old: "boardIdCache s c = Some name" by simp
    show ?thesis
    proof (cases "d = b")
      case True
      with that(2) cache have "name = n" by simp
      with c_old fresh show ?thesis by simp
    next
      case False
      with that(2) cache have "boardIdCache s d = Some name" by simp
      with c_old assms show ?thesis
        unfolding board_inv_def by blast
    qed
  qed
  have "board_inv t"
    unfolding board_inv_def using form inj by blast
  then show ?thesis
    by (simp add: t_def)
qed

lemma board_inv_resolve_all: "board_inv s \<Longrightarrow> board_inv (resolve_all bs s)"
  by (induction bs arbitrary: s) (simp_all add: board_inv_step)

lemma getFriendlyBoardName_stores:
  "boardIdCache (snd (getFriendlyBoardName b s)) b = Some (fst (getFriendlyBoardName b s))"
  by (simp add: getFriendlyBoardName_def Let_def split: option.splits)

lemma getFriendlyBoardName_keeps:
  "boardIdCache s c = Some name \<Longrightarrow> boardIdCache (snd (getFriendlyBoardName b s)) c = Some name"
  by (auto simp: getFriendlyBoardName_def Let_def split: option.splits)

lemma resolve_all_keeps:
  "boardIdCache s c = Some name \<Longrightarrow> boardIdCache (resolve_all bs s) c = Some name"
  by (induction bs arbitrary: s) (simp_all add: getFriendlyBoardName_keeps)

lemma getFriendlyBoardName_hit:
  "boardIdCache s b = Some name \<Longrightarrow> getFriendlyBoardName b s = (name, s)"
  by (simp add: getFriendlyBoardName_def)

text \<open>
  A board id that is an object: the same metadata read from two files holds two objects,
  which get two names; the object of the first file gets its first name again.
\<close>

lemma object_board_ids:
  "(let m = InvokeAIMetadata
              (JObj [(''canvas_v2_metadata'', JObj [(''board_id'', JObj [(''id'', JNum (Fin 1))])])]);
        first = extractBoard 100 m initial_boards;
        second = extractBoard 200 m (snd first);
        third = extractBoard 100 m (snd second)
    in fst first = Inr (JStr ''My Board 1'') \<and> fst second = Inr (JStr ''My Board 2'')
       \<and> fst third = Inr (JStr ''My Board 1''))"
  by code_simp

text \<open>
  Claim C5. In every state the process can reach from the empty cache, resolving a board
  id \<open>a\<close>, then any further ids, then \<open>a\<close> again returns the name of the first call; that
  name is \<open>My Board n\<close> for some \<open>n\<close>; and a different id \<open>b\<close> resolves to a different name.
  The ids are the keys of the cache: the same id is the same primitive value or the same
  object, and two objects are different ids even when their properties are the same.
\<close>

theorem board_stability:
  assumes "s = resolve_all earlier initial_boards"
    and "s1 = snd (getFriendlyBoardName a s)"
    and "s2 = resolve_all between s1"
    and "s3 = snd (getFriendlyBoardName a s2)"
  shows "fst (getFriendlyBoardName a s2) = fst (getFriendlyBoardName a s)
     \<and> (\<exists>n. fst (getFriendlyBoardName a s) = ''My Board '' @ show_nat n)
     \<and> (a \<noteq> b \<longrightarrow> fst (getFriendlyBoardName b s3) \<noteq> fst (getFriendlyBoardName a s))"
proof -
  let ?n = "fst (getFriendlyBoardName a s)"
  have inv_s: "board_inv s"
    using assms(1) board_inv_initial board_inv_resolve_all by simp
  have inv1: "board_inv s1"
    using assms(2) inv_s board_inv_step by simp
  have in1: "boardIdCache s1 a = Some ?n"
    using assms(2) getFriendlyBoardName_stores by simp
  have in2: "boardIdCache s2 a = Some ?n"
    using assms(3) in1 resolve_all_keeps by simp
  have inv2: "board_inv s2"
    using assms(3) inv1 board_inv_resolve_all by simp
  have again: "getFriendlyBoardName a s2 = (?n, s2)"
    using in2 by (rule getFriendlyBoardName_hit)
  have s3: "s3 = s2"
    using assms(4) again by simp
  have form: "\<exists>n. ?n = ''My Board '' @ show_nat n"
    using inv1 in1 unfolding board_inv_def by blast
  have distinct: "fst (getFriendlyBoardName b s3) \<noteq> ?n" if "a \<noteq> b"
  proof
    assume eq: "fst (getFriendlyBoardName b s3) = ?n"
    let ?t = "snd (getFriendlyBoardName b s3)"
    have "board_inv ?t"
      using inv2 s3 board_inv_step by simp
    moreover have "boardIdCache ?t b = Some ?n"
      using getFriendlyBoardName_stores [of b s3] eq by simp
    moreover have "boardIdCache ?t a = Some ?n"
      using in2 s3 getFriendlyBoardName_keeps by simp
    ultimately have "b = a"
      unfolding board_inv_def by blast
    with that show False by simp
  qed
  show ?thesis
    using again form distinct by simp
qed

theorem board_stability_witness:
  "fst (getFriendlyBoardName (KStr ''abc123'')
          (resolve_all [KRef 7, KStr ''other'']
             (snd (getFriendlyBoardName (KStr ''abc123'')
                (resolve_all [KStr ''first''] initial_boards)))))
     = fst (getFriendlyBoardName (KStr ''abc123'') (resolve_all [KStr ''first''] initial_boards))
   \<and> fst (getFriendlyBoardName (KStr ''abc123'') (resolve_all [KStr ''first''] initial_boards))
     = ''My Board 2''
   \<and> KStr ''abc123'' \<noteq> KStr ''def456''
   \<and> fst (getFriendlyBoardName (KStr ''def456'')
          (snd (getFriendlyBoardName (KStr ''abc123'')
             (resolve_all [KRef 7, KStr ''other'']
                (snd (getFriendlyBoardName (KStr ''abc123'')
                   (resolve_all [KStr ''first''] initial_boards)))))))
     \<noteq> fst (getFriendlyBoardName (KStr ''abc123'') (resolve_all [KStr ''first''] initial_boards))"
proof -
  have name: "fst (getFriendlyBoardName (KStr ''abc123'')
      (resolve_all [KStr ''first''] initial_boards)) = ''My Board 2''"
    by code_simp
  show ?thesis
    using board_stability [where a = "KStr ''abc123''" and earlier = "[KStr ''first'']"
        and between = "[KRef 7, KStr ''other'']" and b = "KStr ''def456''", OF refl refl refl refl] name
    by simp
qed

subsection \<open>The two negative-prompt tests\<close>

text \<open>
  Claim C8. The text-encode pass and the fallback scan of \<^verbatim>\<open>parseComfyUIMetadata\<close> do not
  apply the same test: the fallback's keyword list has no \<^verbatim>\<open>negative\<close>, so the text
  \<^verbatim>\<open>negative\<close> is a negative prompt for the first pass and a positive one for the fallback.
\<close>

theorem negative_tests_differ:
  "isNegative ''negative'' \<and> \<not> isNegative_fallback ''negative''"
  by code_simp

subsection \<open>The entry point and the PNG cascade\<close>

text \<open>
  Claim C1. The entry point does not keep every failure from its caller: for a buffer
  that holds the PNG signature and one more byte, the chunk loop reads a length past the
  end of the buffer, the promise of \<^verbatim>\<open>parsePNGMetadata\<close> rejects with the \<^verbatim>\<open>RangeError\<close>,
  and \<^verbatim>\<open>parseImageMetadata\<close>, which returned that promise without awaiting it, rejects with
  it too, whatever the text decoder and the EXIF library do.
\<close>

theorem parseImageMetadata_rejects:
  "parseImageMetadata decode exifr_parse [0x89, 0x50, 0x4E, 0x47, 0x0D, 0x0A, 0x1A, 0x0A, 0x00]
     = Inl RangeError"
  by (simp add: parseImageMetadata_def getUint32_def parsePNGMetadata_def scan_chunks.simps)

lemma classify_workflow:
  assumes "chunk chunks ''workflow'' = Some workflow"
  shows "\<exists>metadata. classify_chunks chunks = Inr (Some (ComfyUIMetadata metadata))"
  using assms by (simp add: classify_chunks_def Let_def)

text \<open>
  Claim C4. Whenever the chunk loop of \<^verbatim>\<open>parsePNGMetadata\<close> ends with a \<^verbatim>\<open>workflow\<close> chunk
  recorded, the function resolves to a metadata of the ComfyUI variant, whichever other
  chunks (\<^verbatim>\<open>invokeai_metadata\<close>, \<^verbatim>\<open>parameters\<close>, \<^verbatim>\<open>prompt\<close>) were recorded with it and for every
  text decoder.
\<close>

theorem workflow_takes_priority:
  assumes "scan_chunks decode buffer 8 [] = Inr chunks"
    and "chunk chunks ''workflow'' = Some workflow"
  shows "\<exists>m. parsePNGMetadata decode buffer = Inr (Some m) \<and> isComfyUIMetadata m"
proof -
  obtain metadata where "classify_chunks chunks = Inr (Some (ComfyUIMetadata metadata))"
    using classify_workflow [OF assms(2)] by blast
  then have "parsePNGMetadata decode buffer = Inr (Some (ComfyUIMetadata metadata))"
    using assms(1) by (simp add: parsePNGMetadata_def)
  then show ?thesis
    by (simp add: isComfyUIMetadata_def)
qed

lemma scan_three_chunks:
  "scan_chunks ascii_decode
     (png_file [text_chunk ''invokeai_metadata'' ''{}'', text_chunk ''parameters'' ''Steps: 20'',
                text_chunk ''workflow'' ''{}'']) 8 []
   = Inr [(''invokeai_metadata'', ''{}''), (''parameters'', ''Steps: 20''), (''workflow'', ''{}'')]"
  by code_simp

theorem workflow_takes_priority_witness:
  "\<exists>m. parsePNGMetadata ascii_decode
          (png_file [text_chunk ''invokeai_metadata'' ''{}'', text_chunk ''parameters'' ''Steps: 20'',
                     text_chunk ''workflow'' ''{}''])
        = Inr (Some m) \<and> isComfyUIMetadata m"
proof -
  have "chunk [(''invokeai_metadata'', ''{}''), (''parameters'', ''Steps: 20''), (''workflow'', ''{}'')]
          ''workflow'' = Some ''{}''"
    by (simp add: chunk_def)
  then show ?thesis
    using workflow_takes_priority [OF scan_three_chunks] by blast
qed

text \<open>
  Claim C3, as the code has it. When no \<^verbatim>\<open>workflow\<close> chunk was recorded and the text of
  the \<^verbatim>\<open>invokeai_metadata\<close> chunk is not valid JSON, \<^verbatim>\<open>parsePNGMetadata\<close> fails with the
  error of \<^verbatim>\<open>JSON.parse\<close>, with or without a \<^verbatim>\<open>parameters\<close> chunk: the cascade does not go
  on to the next source, and no Automatic1111 record is produced.
\<close>

theorem malformed_invokeai_is_fatal:
  assumes "scan_chunks decode buffer 8 [] = Inr chunks"
    and "chunk chunks ''workflow'' = None"
    and "chunk chunks ''invokeai_metadata'' = Some text"
    and "JSON_parse text = Inl e"
  shows "parsePNGMetadata decode buffer = Inl e"
  using assms by (simp add: parsePNGMetadata_def classify_chunks_def)

lemma scan_malformed:
  "scan_chunks ascii_decode
     (png_file [text_chunk ''invokeai_metadata'' ''{'', text_chunk ''parameters'' ''Steps: 20'']) 8 []
   = Inr [(''invokeai_metadata'', ''{''), (''parameters'', ''Steps: 20'')]"
  by code_simp

lemma parse_open_brace: "JSON_parse ''{'' = Inl SyntaxError"
  by code_simp

theorem malformed_invokeai_is_fatal_witness:
  "chunk [(''invokeai_metadata'', ''{''), (''parameters'', ''Steps: 20'')] ''parameters''
     = Some ''Steps: 20''
   \<and> parsePNGMetadata ascii_decode
       (png_file [text_chunk ''invokeai_metadata'' ''{'', text_chunk ''parameters'' ''Steps: 20''])
     = Inl SyntaxError"
proof -
  have "chunk [(''invokeai_metadata'', ''{''), (''parameters'', ''Steps: 20'')] ''workflow'' = None"
    and "chunk [(''invokeai_metadata'', ''{''), (''parameters'', ''Steps: 20'')] ''invokeai_metadata''
      = Some ''{''"
    by (simp_all add: chunk_def)
  then show ?thesis
    using malformed_invokeai_is_fatal [OF scan_malformed _ _ parse_open_brace]
    by (simp add: chunk_def)
qed

text \<open>
  The claim as the specification states it fails on this file: its \<^verbatim>\<open>invokeai_metadata\<close>
  is malformed, it carries a \<^verbatim>\<open>parameters\<close> chunk, and the entry point yields the syntax
  error, not a record.
\<close>

theorem malformed_invokeai_counterexample:
  "parseImageMetadata ascii_decode (\<lambda>buffer. Inl LibraryError)
     (png_file [text_chunk ''invokeai_metadata'' ''{'', text_chunk ''parameters'' ''Steps: 20''])
   = Inl SyntaxError"
  by code_simp

subsection \<open>Objects as property lists\<close>

lemma map_of_replace:
  "map_of (map (\<lambda>kv. if fst kv = k then (k, v) else kv) kvs) k'
     = (if k' = k \<and> map_of kvs k \<noteq> None then Some v else map_of kvs k')"
  by (induction kvs) auto

lemma map_of_insert:
  "map_of kvs k = None \<Longrightarrow>
   map_of (takeWhile P kvs @ (k, v) # dropWhile P kvs) k' = (if k' = k then Some v else map_of kvs k')"
  by (induction kvs) (auto split: if_splits)

lemma map_of_snoc:
  "map_of kvs k = None \<Longrightarrow> map_of (kvs @ [(k, v)]) k' = (if k' = k then Some v else map_of kvs k')"
  by (induction kvs) auto

lemma map_of_obj_set: "map_of (obj_set kvs k v) k' = (if k' = k then Some v else map_of kvs k')"
proof (cases "map_of kvs k")
  case None
  then show ?thesis
    by (simp add: obj_set_def map_of_insert map_of_snoc del: map_of_append)
next
  case (Some x)
  then show ?thesis
    by (simp add: obj_set_def map_of_replace)
qed

lemma get_prop_obj_set:
  "get_prop (JObj (obj_set kvs k v)) k' = (if k' = k then v else get_prop (JObj kvs) k')"
  by (simp add: get_prop_def map_of_obj_set)

lemma normalizedMetadata_no_index: "\<not> is_index_key ''normalizedMetadata''"
  by code_simp

lemma with_normalized_fresh:
  "map_of kvs ''normalizedMetadata'' = None \<Longrightarrow>
   with_normalized (JObj kvs) n = JObj (kvs @ [(''normalizedMetadata'', n)])"
  by (simp add: with_normalized_def set_normalizedMetadata_def obj_set_def normalizedMetadata_no_index)

lemma option_case_same: "(case x of None \<Rightarrow> a | Some y \<Rightarrow> a) = a"
  by (cases x) simp_all

lemma get_prop_case_option:
  "get_prop (JObj (case x of None \<Rightarrow> r | Some g \<Rightarrow> f g)) k
     = (case x of None \<Rightarrow> get_prop (JObj r) k | Some g \<Rightarrow> get_prop (JObj (f g)) k)"
  by (cases x) simp_all

lemma get_prop_if:
  "get_prop (JObj (if c then r else r')) k = (if c then get_prop (JObj r) k else get_prop (JObj r') k)"
  by simp

lemma get_prop_case_prod:
  "get_prop (JObj (case p of (a, b) \<Rightarrow> f a b)) k = (case p of (a, b) \<Rightarrow> get_prop (JObj (f a b)) k)"
  by (cases p) simp

subsection \<open>The defaults of the Automatic1111 parser\<close>

lemma first_match_None:
  assumes "key \<noteq> []" and "\<not> includes_ci s key"
  shows "first_match (key_value_here key C) s = None"
  using assms
proof (induction s)
  case Nil
  then show ?case
    by (cases key) (simp_all add: key_value_here_def)
next
  case (Cons c cs)
  then show ?case
    by (simp add: key_value_here_def)
qed

lemma parseA1111_steps:
  "get_prop (parseA1111Metadata p) ''steps''
     = (case match_Steps p of
          None \<Rightarrow> JNum (Fin 0)
        | Some g \<Rightarrow> if isNaN (JNum (parseInt (JStr g))) then JNum (Fin 0) else JNum (parseInt (JStr g)))"
  apply (simp add: parseA1111Metadata_def Let_def get_prop_obj_set get_prop_case_option get_prop_if
      get_prop_case_prod option_case_same split_def cong: option.case_cong if_cong)
  apply (simp add: get_prop_def cong: option.case_cong if_cong)
  done

lemma parseA1111_cfgScale:
  "get_prop (parseA1111Metadata p) ''cfgScale''
     = (case match_CFG_scale p of
          None \<Rightarrow> JNum (Fin 0)
        | Some g \<Rightarrow> if isNaN (JNum (parseFloat (JStr g))) then JNum (Fin 0) else JNum (parseFloat (JStr g)))"
  apply (simp add: parseA1111Metadata_def Let_def get_prop_obj_set get_prop_case_option get_prop_if
      get_prop_case_prod option_case_same split_def cong: option.case_cong if_cong)
  apply (simp add: get_prop_def cong: option.case_cong if_cong)
  done

lemma parseA1111_truthy: "truthy (parseA1111Metadata p)"
  by (simp add: parseA1111Metadata_def Let_def truthy_def)

lemma a1111_cached:
  "cached_field populated k (object_of (a1111_metadata p))
     = (if populated (get_prop (parseA1111Metadata p) k) then Some (get_prop (parseA1111Metadata p) k)
        else None)"
  by (simp add: cached_field_def normalized_of_def a1111_metadata_def object_of_def has_prop_def
      get_prop_def parseA1111_truthy)

lemma a1111_normalized_of:
  "normalized_of (object_of (a1111_metadata p)) = Some (parseA1111Metadata p)"
  by (simp add: normalized_of_def a1111_metadata_def object_of_def has_prop_def get_prop_def
      parseA1111_truthy)

lemma a1111_in_operand: "in_operand (object_of (a1111_metadata p))"
  by (simp add: a1111_metadata_def object_of_def in_operand_def)

text \<open>
  Claim C10. For the metadata that the PNG and JPEG paths build from a parameters string
  \<open>p\<close> (the string and the cache \<^verbatim>\<open>parseA1111Metadata\<close> computes from it): when \<open>p\<close> has no
  \<^verbatim>\<open>Steps:\<close> key, \<^verbatim>\<open>extractSteps\<close> returns the number 0 of the cache, not \<^verbatim>\<open>undefined\<close>; when \<open>p\<close>
  has no \<^verbatim>\<open>CFG scale:\<close> key, \<^verbatim>\<open>extractCfgScale\<close> returns 0.
\<close>

theorem a1111_numeric_defaults:
  "(\<not> includes_ci p ''Steps:'' \<longrightarrow> extractSteps (a1111_metadata p) = Inr (JNum (Fin 0)))
   \<and> (\<not> includes_ci p ''CFG scale:'' \<longrightarrow> extractCfgScale (a1111_metadata p) = Inr (JNum (Fin 0)))"
proof (intro conjI impI)
  assume "\<not> includes_ci p ''Steps:''"
  then have "match_Steps p = None"
    by (simp add: match_Steps_def first_match_None)
  then have "get_prop (parseA1111Metadata p) ''steps'' = JNum (Fin 0)"
    by (simp add: parseA1111_steps)
  then show "extractSteps (a1111_metadata p) = Inr (JNum (Fin 0))"
    by (simp add: extractSteps_def a1111_in_operand a1111_cached is_cached_number_def is_number_def)
next
  assume "\<not> includes_ci p ''CFG scale:''"
  then have "match_CFG_scale p = None"
    by (simp add: match_CFG_scale_def first_match_None)
  then have "get_prop (parseA1111Metadata p) ''cfgScale'' = JNum (Fin 0)"
    by (simp add: parseA1111_cfgScale)
  then show "extractCfgScale (a1111_metadata p) = Inr (JNum (Fin 0))"
    by (simp add: extractCfgScale_def a1111_in_operand a1111_cached is_cached_number_def is_number_def)
qed

theorem a1111_numeric_defaults_witness:
  "\<not> includes_ci ''a cat'' ''Steps:'' \<and> extractSteps (a1111_metadata ''a cat'') = Inr (JNum (Fin 0))
   \<and> \<not> includes_ci ''a cat'' ''CFG scale:''
   \<and> extractCfgScale (a1111_metadata ''a cat'') = Inr (JNum (Fin 0))"
proof -
  have "\<not> includes_ci ''a cat'' ''Steps:''" and "\<not> includes_ci ''a cat'' ''CFG scale:''"
    by code_simp+
  then show ?thesis
    using a1111_numeric_defaults [of "''a cat''"] by simp
qed

subsection \<open>Scenario 1\<close>

lemma scenario_normalized:
  "parseA1111Metadata scenario_parameters =
     JObj [(''prompt'', JStr ''a cat''), (''model'', JStr ''foo.safetensors''),
           (''width'', JNum (Fin 512)), (''height'', JNum (Fin 768)), (''steps'', JNum (Fin 20)),
           (''scheduler'', JStr ''Euler a''), (''negativePrompt'', JStr ''blurry''),
           (''cfgScale'', JNum (Fin (15 / 2))), (''seed'', JNum (Fin 42))]"
  by code_simp

lemma scenario_models:
  "extractModelsFromAutomatic1111
     (JObj [(''parameters'', JStr scenario_parameters), (''normalizedMetadata'', n)])
   = Inr [JStr ''foo.safetensors'']"
proof -
  have "match_Model scenario_parameters = Some ''foo.safetensors''"
    and "match_Model_hash scenario_parameters = None"
    and "trim ''foo.safetensors'' = ''foo.safetensors''"
    by code_simp+
  then show ?thesis
    by (simp add: extractModelsFromAutomatic1111_def opt_prop_def nullish_def get_prop_def
        is_string_def str_of_def)
qed

lemma scenario_dimensions: "ToString (JNum (Fin 512)) @ ''x'' @ ToString (JNum (Fin 768)) = ''512x768''"
  by code_simp

lemma scenario_fields:
  "extractPrompt (a1111_metadata scenario_parameters) = Inr (JStr ''a cat'')"
  "extractNegativePrompt (a1111_metadata scenario_parameters) = Inr (JStr ''blurry'')"
  "extractSteps (a1111_metadata scenario_parameters) = Inr (JNum (Fin 20))"
  "extractCfgScale (a1111_metadata scenario_parameters) = Inr (JNum (Fin (15 / 2)))"
  "extractSeed (a1111_metadata scenario_parameters) = Inr (JNum (Fin 42))"
  "extractScheduler (a1111_metadata scenario_parameters) = Inr (JStr ''Euler a'')"
  by (simp_all add: extractPrompt_def extractNegativePrompt_def extractSteps_def extractCfgScale_def
      extractSeed_def extractScheduler_def Let_def a1111_in_operand a1111_cached scenario_normalized
      get_prop_def truthy_def is_cached_number_def is_number_def)

lemma scenario_dimensions_field:
  "extractDimensions (a1111_metadata scenario_parameters) = Inr (JStr ''512x768'')"
  using scenario_dimensions
  by (simp add: extractDimensions_def Let_def a1111_in_operand a1111_normalized_of
      scenario_normalized dimensions_of_def get_prop_def truthy_def)

lemma scenario_models_field:
  "extractModels (a1111_metadata scenario_parameters) = Inr (JArr [JStr ''foo.safetensors''])"
proof -
  have "cached_field (\<lambda>v. truthy v \<and> isArray v) ''models'' (object_of (a1111_metadata scenario_parameters))
        = None"
    by (simp add: a1111_cached scenario_normalized get_prop_def truthy_def)
  moreover have "object_of (a1111_metadata scenario_parameters)
      = JObj [(''parameters'', JStr scenario_parameters),
              (''normalizedMetadata'', parseA1111Metadata scenario_parameters)]"
    by (simp add: a1111_metadata_def object_of_def)
  ultimately show ?thesis
    using scenario_models [of "parseA1111Metadata scenario_parameters"]
    by (simp add: extractModels_def Let_def in_operand_def object_of_def isInvokeAIMetadata_def
        isAutomatic1111Metadata_def a1111_metadata_def)
qed

text \<open>
  Claim C7. When the chunk loop ends with the \<^verbatim>\<open>parameters\<close> text of Scenario 1 recorded and
  neither a \<^verbatim>\<open>workflow\<close> nor an \<^verbatim>\<open>invokeai_metadata\<close> chunk, the PNG parser resolves to the
  Automatic1111 metadata of that text, and the field extractors give prompt \<^verbatim>\<open>a cat\<close>,
  negative prompt \<^verbatim>\<open>blurry\<close>, steps 20, CFG scale 7.5, seed 42, dimensions \<^verbatim>\<open>512x768\<close>, the
  one model \<^verbatim>\<open>foo.safetensors\<close> and scheduler \<^verbatim>\<open>Euler a\<close>.
\<close>

theorem scenario_1:
  assumes "scan_chunks decode buffer 8 [] = Inr chunks"
    and "chunk chunks ''workflow'' = None"
    and "chunk chunks ''invokeai_metadata'' = None"
    and "chunk chunks ''parameters'' = Some scenario_parameters"
  shows "parsePNGMetadata decode buffer = Inr (Some (a1111_metadata scenario_parameters))
     \<and> extractPrompt (a1111_metadata scenario_parameters) = Inr (JStr ''a cat'')
     \<and> extractNegativePrompt (a1111_metadata scenario_parameters) = Inr (JStr ''blurry'')
     \<and> extractSteps (a1111_metadata scenario_parameters) = Inr (JNum (Fin 20))
     \<and> extractCfgScale (a1111_metadata scenario_parameters) = Inr (JNum (Fin (15 / 2)))
     \<and> extractSeed (a1111_metadata scenario_parameters) = Inr (JNum (Fin 42))
     \<and> extractDimensions (a1111_metadata scenario_parameters) = Inr (JStr ''512x768'')
     \<and> extractModels (a1111_metadata scenario_parameters) = Inr (JArr [JStr ''foo.safetensors''])
     \<and> extractScheduler (a1111_metadata scenario_parameters) = Inr (JStr ''Euler a'')"
proof -
  have "with_normalized (JObj [(''parameters'', JStr scenario_parameters)])
          (parseA1111Metadata scenario_parameters)
        = JObj [(''parameters'', JStr scenario_parameters),
                (''normalizedMetadata'', parseA1111Metadata scenario_parameters)]"
    by (simp add: with_normalized_fresh)
  then have "classify_chunks chunks = Inr (Some (a1111_metadata scenario_parameters))"
    using assms(2-4) by (simp add: classify_chunks_def a1111_metadata_def)
  then have "parsePNGMetadata decode buffer = Inr (Some (a1111_metadata scenario_parameters))"
    using assms(1) by (simp add: parsePNGMetadata_def)
  then show ?thesis
    using scenario_fields scenario_dimensions_field scenario_models_field by simp
qed

lemma scan_scenario:
  "scan_chunks ascii_decode (png_file [text_chunk ''parameters'' scenario_parameters]) 8 []
     = Inr [(''parameters'', scenario_parameters)]"
  by code_simp

theorem scenario_1_witness:
  "parsePNGMetadata ascii_decode (png_file [text_chunk ''parameters'' scenario_parameters])
     = Inr (Some (a1111_metadata scenario_parameters))
   \<and> extractPrompt (a1111_metadata scenario_parameters) = Inr (JStr ''a cat'')
   \<and> extractDimensions (a1111_metadata scenario_parameters) = Inr (JStr ''512x768'')"
proof -
  have "chunk [(''parameters'', scenario_parameters)] ''workflow'' = None"
    and "chunk [(''parameters'', scenario_parameters)] ''invokeai_metadata'' = None"
    and "chunk [(''parameters'', scenario_parameters)] ''parameters'' = Some scenario_parameters"
    by (simp_all add: chunk_def scenario_parameters_def)
  then show ?thesis
    using scenario_1 [OF scan_scenario] by simp
qed

subsection \<open>The InvokeAI prompt\<close>

lemma positive_prompt_no_index: "\<not> is_index_key ''positive_prompt''"
  by code_simp

lemma positive_prompt_object:
  assumes "get_prop metadata ''positive_prompt'' = JStr positive"
  shows "in_operand metadata"
  using assms
  by (cases metadata) (simp_all add: get_prop_def in_operand_def positive_prompt_no_index)

text \<open>
  Claim C9, as the code has it. For an InvokeAI metadata whose \<^verbatim>\<open>positive_prompt\<close> and
  \<^verbatim>\<open>negative_prompt\<close> are strings that are not empty, with no populated prompt in a cache,
  and with no \<^verbatim>\<open>parameters\<close> string whose Automatic1111 reading has a prompt, \<^verbatim>\<open>extractPrompt\<close>
  returns the positive prompt, the separator \<^verbatim>\<open> ### \<close> and the negative prompt.
\<close>

theorem invokeai_prompt_joins_negative:
  assumes "get_prop metadata ''positive_prompt'' = JStr positive" and "positive \<noteq> []"
    and "get_prop metadata ''negative_prompt'' = JStr negative" and "negative \<noteq> []"
    and "cached_field truthy ''prompt'' metadata = None"
    and "embedded_field ''prompt'' metadata = None"
  shows "extractPrompt (InvokeAIMetadata metadata) = Inr (JStr (positive @ '' ### '' @ negative))"
proof -
  have "invoke_prompt metadata = Return (JStr (positive @ '' ### '' @ negative))"
    using assms(1-4) by (simp add: invoke_prompt_def Let_def truthy_def)
  then show ?thesis
    using assms(5,6) positive_prompt_object [OF assms(1)]
    by (simp add: extractPrompt_def Let_def object_of_def isInvokeAIMetadata_def)
qed

theorem invokeai_prompt_joins_negative_witness:
  "extractPrompt (InvokeAIMetadata
      (JObj [(''positive_prompt'', JStr ''a cat''), (''negative_prompt'', JStr ''blurry'')]))
   = Inr (JStr ''a cat ### blurry'')"
proof -
  have "cached_field truthy ''prompt''
          (JObj [(''positive_prompt'', JStr ''a cat''), (''negative_prompt'', JStr ''blurry'')]) = None"
    and "embedded_field ''prompt''
          (JObj [(''positive_prompt'', JStr ''a cat''), (''negative_prompt'', JStr ''blurry'')]) = None"
    by code_simp+
  then show ?thesis
    using invokeai_prompt_joins_negative
      [of "JObj [(''positive_prompt'', JStr ''a cat''), (''negative_prompt'', JStr ''blurry'')]"
          "''a cat''" "''blurry''"]
    by (simp add: get_prop_def)
qed

text \<open>
  The claim as stated fails on an InvokeAI metadata that also has a \<^verbatim>\<open>parameters\<close> string:
  the extractor reads that string as Automatic1111 parameters before it looks at the
  variant, and returns its prompt.
\<close>

theorem invokeai_prompt_counterexample:
  "isInvokeAIMetadata (InvokeAIMetadata
      (JObj [(''positive_prompt'', JStr ''a cat''), (''negative_prompt'', JStr ''blurry''),
             (''parameters'', JStr ''a dog'')]))
   \<and> normalized_of
        (JObj [(''positive_prompt'', JStr ''a cat''), (''negative_prompt'', JStr ''blurry''),
               (''parameters'', JStr ''a dog'')]) = None
   \<and> extractPrompt (InvokeAIMetadata
        (JObj [(''positive_prompt'', JStr ''a cat''), (''negative_prompt'', JStr ''blurry''),
               (''parameters'', JStr ''a dog'')]))
     = Inr (JStr ''a dog'')"
  by code_simp

subsection \<open>The cache and the extractors\<close>

lemma normalized_of_in_operand:
  assumes "normalized_of metadata = Some normalized"
  shows "in_operand metadata"
  using assms
  by (cases metadata) (simp_all add: normalized_of_def has_prop_def in_operand_def)

lemma cached_field_hit:
  assumes "normalized_of metadata = Some normalized" and "populated (get_prop normalized k)"
  shows "cached_field populated k metadata = Some (get_prop normalized k)"
  using assms by (simp add: cached_field_def)

lemma frac_digits_zero: "frac_digits n 0 = []"
  by (cases n) simp_all

lemma Number_toString_integer:
  assumes "0 \<le> w" and "w < 2 ^ 53"
  shows "Number_toString (Fin (of_int w)) = show_dec w"
proof -
  have "\<not> (10 :: rat) ^ 21 \<le> of_int w"
  proof -
    have "w < 10 ^ 21"
      using assms(2) by simp
    then have "(of_int w :: rat) < of_int (10 ^ 21)"
      by (simp only: of_int_less_iff)
    then show ?thesis
      by simp
  qed
  moreover have "\<not> (0 < (of_int w :: rat) \<and> (of_int w :: rat) < 1 / 10 ^ 6)"
  proof (cases "w = 0")
    case True
    then show ?thesis by simp
  next
    case False
    with assms(1) have "1 \<le> w" by simp
    then have "(1 :: rat) \<le> of_int w" by simp
    then show ?thesis by simp
  qed
  ultimately show ?thesis
    using assms(1) by (auto simp add: Number_toString_def Let_def frac_digits_zero)
qed

lemma cached_dimensions:
  assumes "normalized_of (object_of m) = Some normalized"
    and "get_prop normalized ''width'' = JNum (Fin (of_int w))"
    and "get_prop normalized ''height'' = JNum (Fin (of_int h))"
    and "0 < w" and "w < 2 ^ 53" and "0 < h" and "h < 2 ^ 53"
  shows "extractDimensions m = Inr (JStr (show_dec w @ ''x'' @ show_dec h))"
proof -
  have "Number_toString (Fin (of_int w)) = show_dec w"
    and "Number_toString (Fin (of_int h)) = show_dec h"
    using assms(4-7) by (simp_all add: Number_toString_integer)
  then have "dimensions_of normalized = Return (JStr (show_dec w @ ''x'' @ show_dec h))"
    using assms(2-4,6) by (simp add: dimensions_of_def truthy_def)
  then show ?thesis
    using assms(1) normalized_of_in_operand [OF assms(1)]
    by (simp add: extractDimensions_def Let_def)
qed

subsection \<open>The board and the cache\<close>

lemma find_replace:
  assumes "\<And>v. \<not> P (k, v)"
  shows "find P (map (\<lambda>kv. if fst kv = k then (k, x) else kv) kvs) = find P kvs"
proof (induction kvs)
  case Nil
  then show ?case by simp
next
  case (Cons kv kvs)
  have "\<not> P kv" if "fst kv = k"
    using assms [of "snd kv"] that by (cases kv) simp
  with Cons assms show ?case
    by simp
qed

lemma find_app:
  "find P (xs @ ys) = (case find P xs of None \<Rightarrow> find P ys | Some x \<Rightarrow> Some x)"
  by (induction xs) simp_all

lemma find_insert:
  assumes "\<not> P y"
  shows "find P (takeWhile Q kvs @ y # dropWhile Q kvs) = find P kvs"
proof -
  have "find P (y # dropWhile Q kvs) = find P (dropWhile Q kvs)"
    using assms by simp
  then have "find P (takeWhile Q kvs @ y # dropWhile Q kvs)
      = find P (takeWhile Q kvs @ dropWhile Q kvs)"
    by (simp only: find_app)
  then show ?thesis
    by simp
qed

lemma find_snoc:
  assumes "\<not> P y"
  shows "find P (kvs @ [y]) = find P kvs"
  using assms by (simp add: find_app split: option.splits)

lemma find_obj_set:
  assumes "\<And>v. \<not> P (k, v)"
  shows "find P (obj_set kvs k x) = find P kvs"
proof -
  have "\<not> P (k, x)"
    using assms by simp
  then show ?thesis
    using assms by (simp add: obj_set_def find_replace find_insert find_snoc)
qed

lemma normalizedMetadata_no_board: "\<not> includes_str (toLowerCase ''normalizedMetadata'') ''board''"
  by code_simp

text \<open>
  Two metadata values that differ in the cache at most: the same properties under every
  other name, and the same entries apart from the cache.
\<close>

lemma board_string_field_frame:
  assumes "\<And>k. k \<noteq> ''normalizedMetadata'' \<Longrightarrow> get_prop a k = get_prop b k"
    and "''normalizedMetadata'' \<notin> set ks"
  shows "board_string_field a ks = board_string_field b ks"
proof -
  have "map (get_prop a) ks = map (get_prop b) ks"
    using assms by (induction ks) auto
  then show ?thesis
    unfolding board_string_field_def by (simp only:)
qed

lemma extractBoardFromInvokeAI_frame:
  assumes props: "\<And>k. k \<noteq> ''normalizedMetadata'' \<Longrightarrow> get_prop a k = get_prop b k"
    and entries: "board_named_field a = board_named_field b"
    and null: "nullish a = nullish b"
  shows "extractBoardFromInvokeAI address a s = extractBoardFromInvokeAI address b s"
proof -
  have names: "board_string_field a [''board_name'', ''board_id'', ''boardName'', ''boardId'', ''Board Name'']
      = board_string_field b [''board_name'', ''board_id'', ''boardName'', ''boardId'', ''Board Name'']"
    by (rule board_string_field_frame) (simp_all add: props)
  have board: "board_string_field a [''board''] = board_string_field b [''board'']"
    by (rule board_string_field_frame) (simp_all add: props)
  have object: "board_object_field a = board_object_field b"
    by (simp add: board_object_field_def props)
  have canvas: "canvas_board_id a = canvas_board_id b"
    by (simp add: canvas_board_id_def props)
  have workflow: "get_prop a ''workflow'' = get_prop b ''workflow''"
    by (simp add: props)
  show ?thesis
    unfolding extractBoardFromInvokeAI_def
    by (simp only: null names board object canvas workflow entries)
qed

lemma object_frame:
  "extractBoardFromInvokeAI address (JObj (obj_set kvs ''normalizedMetadata'' n)) s
     = extractBoardFromInvokeAI address (JObj kvs) s"
proof (rule extractBoardFromInvokeAI_frame)
  show "get_prop (JObj (obj_set kvs ''normalizedMetadata'' n)) k = get_prop (JObj kvs) k"
    if "k \<noteq> ''normalizedMetadata''" for k
    using that by (simp add: get_prop_obj_set)
  show "board_named_field (JObj (obj_set kvs ''normalizedMetadata'' n)) = board_named_field (JObj kvs)"
    by (simp add: board_named_field_def Object_entries_def find_obj_set normalizedMetadata_no_board)
  show "nullish (JObj (obj_set kvs ''normalizedMetadata'' n)) = nullish (JObj kvs)"
    by (simp add: nullish_def)
qed

lemma array_entries:
  "board_named_field (JArray xs c) = board_named_field (JArray xs None)"
  by (cases c) (simp_all add: board_named_field_def Object_entries_def find_snoc
      normalizedMetadata_no_board)

lemma array_frame:
  "extractBoardFromInvokeAI address (JArray xs (Some n)) s
     = extractBoardFromInvokeAI address (JArray xs c) s"
proof (rule extractBoardFromInvokeAI_frame)
  show "get_prop (JArray xs (Some n)) k = get_prop (JArray xs c) k"
    if "k \<noteq> ''normalizedMetadata''" for k
    using that by (simp add: get_prop_def)
  show "board_named_field (JArray xs (Some n)) = board_named_field (JArray xs c)"
    using array_entries [of xs "Some n"] array_entries [of xs c] by simp
  show "nullish (JArray xs (Some n)) = nullish (JArray xs c)"
    by (simp add: nullish_def)
qed

lemma extractBoard_frame:
  assumes "isInvokeAIMetadata m" and "in_operand (object_of m)"
  shows "extractBoard address (InvokeAIMetadata (with_normalized (object_of m) other)) s
       = extractBoard address m s"
proof -
  obtain v where m: "m = InvokeAIMetadata v"
    using assms(1) by (cases m) (simp_all add: isInvokeAIMetadata_def)
  with assms(2) show ?thesis
    by (cases v)
      (simp_all add: extractBoard_def isInvokeAIMetadata_def object_of_def in_operand_def
        with_normalized_def set_normalizedMetadata_def object_frame array_frame)
qed

text \<open>
  Claim C2, as the code has it. For a metadata of any variant that carries a cache: each
  of \<^verbatim>\<open>extractPrompt\<close>, \<^verbatim>\<open>extractNegativePrompt\<close> and \<^verbatim>\<open>extractScheduler\<close> returns the cached
  field when it is truthy, \<^verbatim>\<open>extractModels\<close> and \<^verbatim>\<open>extractLoras\<close> when it is an array,
  \<^verbatim>\<open>extractCfgScale\<close>, \<^verbatim>\<open>extractSteps\<close> and \<^verbatim>\<open>extractSeed\<close> when it is a number, and
  \<^verbatim>\<open>extractDimensions\<close> returns the cached width and height, positive integers below
  \<open>2^53\<close>, in decimal and joined by \<^verbatim>\<open>x\<close>. \<^verbatim>\<open>extractBoard\<close> does not read the cache: for a
  metadata that is not InvokeAI's it returns \<^verbatim>\<open>Uncategorized\<close> and leaves the board state
  as it is, and for an InvokeAI metadata its result and the board state it leaves are the
  same whatever is put in the place of the cache.
\<close>

theorem cache_is_preferred:
  assumes "normalized_of (object_of m) = Some normalized"
  shows "(truthy (get_prop normalized ''prompt'')
            \<longrightarrow> extractPrompt m = Inr (get_prop normalized ''prompt''))
     \<and> (truthy (get_prop normalized ''negativePrompt'')
            \<longrightarrow> extractNegativePrompt m = Inr (get_prop normalized ''negativePrompt''))
     \<and> (isArray (get_prop normalized ''models'')
            \<longrightarrow> extractModels m = Inr (get_prop normalized ''models''))
     \<and> (isArray (get_prop normalized ''loras'')
            \<longrightarrow> extractLoras m = Inr (get_prop normalized ''loras''))
     \<and> (truthy (get_prop normalized ''scheduler'')
            \<longrightarrow> extractScheduler m = Inr (get_prop normalized ''scheduler''))
     \<and> (is_number (get_prop normalized ''cfgScale'')
            \<longrightarrow> extractCfgScale m = Inr (get_prop normalized ''cfgScale''))
     \<and> (is_number (get_prop normalized ''steps'')
            \<longrightarrow> extractSteps m = Inr (get_prop normalized ''steps''))
     \<and> (is_number (get_prop normalized ''seed'')
            \<longrightarrow> extractSeed m = Inr (get_prop normalized ''seed''))
     \<and> (get_prop normalized ''width'' = JNum (Fin (of_int w))
          \<and> get_prop normalized ''height'' = JNum (Fin (of_int h))
          \<and> 0 < w \<and> w < 2 ^ 53 \<and> 0 < h \<and> h < 2 ^ 53
            \<longrightarrow> extractDimensions m = Inr (JStr (show_dec w @ ''x'' @ show_dec h)))
     \<and> (\<not> isInvokeAIMetadata m
            \<longrightarrow> extractBoard address m s = (Inr (JStr ''Uncategorized''), s))
     \<and> (isInvokeAIMetadata m
            \<longrightarrow> extractBoard address (InvokeAIMetadata (with_normalized (object_of m) other)) s
                = extractBoard address m s)"
proof -
  note obj = normalized_of_in_operand [OF assms]
  note hit = cached_field_hit [OF assms]
  have array: "truthy v \<and> isArray v" if "isArray v" for v
    using that by (cases v) (simp_all add: isArray_def truthy_def)
  have number: "is_cached_number v" if "is_number v" for v
    using that by (cases v) (simp_all add: is_number_def is_cached_number_def)
  have prompt: "extractPrompt m = Inr (get_prop normalized ''prompt'')"
    if "truthy (get_prop normalized ''prompt'')"
    using obj hit [of truthy "''prompt''"] that by (simp add: extractPrompt_def Let_def)
  have negative: "extractNegativePrompt m = Inr (get_prop normalized ''negativePrompt'')"
    if "truthy (get_prop normalized ''negativePrompt'')"
    using obj hit [of truthy "''negativePrompt''"] that by (simp add: extractNegativePrompt_def Let_def)
  have models: "extractModels m = Inr (get_prop normalized ''models'')"
    if "isArray (get_prop normalized ''models'')"
    using obj hit [of "\<lambda>v. truthy v \<and> isArray v" "''models''"] array [OF that]
    by (simp add: extractModels_def Let_def)
  have loras: "extractLoras m = Inr (get_prop normalized ''loras'')"
    if "isArray (get_prop normalized ''loras'')"
    using obj hit [of "\<lambda>v. truthy v \<and> isArray v" "''loras''"] array [OF that]
    by (simp add: extractLoras_def Let_def)
  have scheduler: "extractScheduler m = Inr (get_prop normalized ''scheduler'')"
    if "truthy (get_prop normalized ''scheduler'')"
    using obj hit [of truthy "''scheduler''"] that by (simp add: extractScheduler_def Let_def)
  have cfg: "extractCfgScale m = Inr (get_prop normalized ''cfgScale'')"
    if "is_number (get_prop normalized ''cfgScale'')"
    using obj hit [of is_cached_number "''cfgScale''"] number [OF that]
    by (simp add: extractCfgScale_def Let_def)
  have steps: "extractSteps m = Inr (get_prop normalized ''steps'')"
    if "is_number (get_prop normalized ''steps'')"
    using obj hit [of is_cached_number "''steps''"] number [OF that]
    by (simp add: extractSteps_def Let_def)
  have seed: "extractSeed m = Inr (get_prop normalized ''seed'')"
    if "is_number (get_prop normalized ''seed'')"
    using obj hit [of is_cached_number "''seed''"] number [OF that]
    by (simp add: extractSeed_def Let_def)
  have dimensions: "extractDimensions m = Inr (JStr (show_dec w @ ''x'' @ show_dec h))"
    if "get_prop normalized ''width'' = JNum (Fin (of_int w))
        \<and> get_prop normalized ''height'' = JNum (Fin (of_int h))
        \<and> 0 < w \<and> w < 2 ^ 53 \<and> 0 < h \<and> h < 2 ^ 53"
    using cached_dimensions [OF assms, of w h] that by blast
  have board: "extractBoard address m s = (Inr (JStr ''Uncategorized''), s)"
    if "\<not> isInvokeAIMetadata m"
    using that by (simp add: extractBoard_def)
  have frame: "extractBoard address (InvokeAIMetadata (with_normalized (object_of m) other)) s
      = extractBoard address m s" if "isInvokeAIMetadata m"
    using that obj by (rule extractBoard_frame)
  show ?thesis
    using prompt negative models loras scheduler cfg steps seed dimensions board frame by blast
qed

lemma cached_sample_normalized:
  "normalized_of (object_of cached_sample)
     = Some (JObj [(''prompt'', JStr ''a dog''), (''negativePrompt'', JStr ''blurry''),
                   (''models'', JArr [JStr ''m.safetensors'']), (''loras'', JArr []),
                   (''scheduler'', JStr ''dpmpp_2m''), (''cfgScale'', JNum (Fin 6)),
                   (''steps'', JNum (Fin 30)), (''seed'', JNum (Fin 7)),
                   (''width'', JNum (Fin 512)), (''height'', JNum (Fin 768)),
                   (''board'', JStr ''Landscapes'')])"
  by (simp add: cached_sample_def object_of_def normalized_of_def has_prop_def get_prop_def truthy_def)

lemma board_sample_normalized:
  "normalized_of (object_of board_sample)
     = Some (JObj [(''prompt'', JStr ''a cat''), (''board'', JStr ''Landscapes'')])"
  by (simp add: board_sample_def object_of_def normalized_of_def has_prop_def get_prop_def truthy_def)

lemma sample_dimensions: "show_dec 512 @ ''x'' @ show_dec 768 = ''512x768''"
  by code_simp

lemma board_sample_board: "fst (extractBoard 0 board_sample initial_boards) = Inr (JStr ''Portraits'')"
  by code_simp

theorem cache_is_preferred_witness:
  "extractPrompt cached_sample = Inr (JStr ''a dog'')
   \<and> extractNegativePrompt cached_sample = Inr (JStr ''blurry'')
   \<and> extractModels cached_sample = Inr (JArr [JStr ''m.safetensors''])
   \<and> extractLoras cached_sample = Inr (JArr [])
   \<and> extractScheduler cached_sample = Inr (JStr ''dpmpp_2m'')
   \<and> extractCfgScale cached_sample = Inr (JNum (Fin 6))
   \<and> extractSteps cached_sample = Inr (JNum (Fin 30))
   \<and> extractSeed cached_sample = Inr (JNum (Fin 7))
   \<and> extractDimensions cached_sample = Inr (JStr ''512x768'')
   \<and> extractBoard 0 cached_sample initial_boards = (Inr (JStr ''Uncategorized''), initial_boards)
   \<and> extractPrompt board_sample = Inr (JStr ''a cat'')
   \<and> fst (extractBoard 0
         (InvokeAIMetadata
            (with_normalized (object_of board_sample) (JObj [(''board'', JStr ''Elsewhere'')])))
         initial_boards)
     = Inr (JStr ''Portraits'')"
proof -
  have comfy: "\<not> isInvokeAIMetadata cached_sample"
    by (simp add: cached_sample_def isInvokeAIMetadata_def)
  have invoke: "isInvokeAIMetadata board_sample"
    by (simp add: board_sample_def isInvokeAIMetadata_def)
  have first: "extractPrompt cached_sample = Inr (JStr ''a dog'')
     \<and> extractNegativePrompt cached_sample = Inr (JStr ''blurry'')
     \<and> extractModels cached_sample = Inr (JArr [JStr ''m.safetensors''])
     \<and> extractLoras cached_sample = Inr (JArr [])
     \<and> extractScheduler cached_sample = Inr (JStr ''dpmpp_2m'')
     \<and> extractCfgScale cached_sample = Inr (JNum (Fin 6))
     \<and> extractSteps cached_sample = Inr (JNum (Fin 30))
     \<and> extractSeed cached_sample = Inr (JNum (Fin 7))
     \<and> extractDimensions cached_sample = Inr (JStr ''512x768'')
     \<and> extractBoard 0 cached_sample initial_boards = (Inr (JStr ''Uncategorized''), initial_boards)"
    using cache_is_preferred [OF cached_sample_normalized, of 512 768 0 initial_boards] comfy
      sample_dimensions
    by (simp add: get_prop_def truthy_def isArray_def is_number_def)
  have second: "extractPrompt board_sample = Inr (JStr ''a cat'')
     \<and> fst (extractBoard 0
           (InvokeAIMetadata
              (with_normalized (object_of board_sample) (JObj [(''board'', JStr ''Elsewhere'')])))
           initial_boards)
       = Inr (JStr ''Portraits'')"
    using cache_is_preferred [OF board_sample_normalized, of 0 0 0 initial_boards
        "JObj [(''board'', JStr ''Elsewhere'')]"] invoke board_sample_board
    by (simp add: get_prop_def truthy_def)
  from first second show ?thesis
    by simp
qed

text \<open>
  The claim as stated fails for the board. The cache of the first metadata, a ComfyUI
  one, has the board populated, and \<^verbatim>\<open>extractBoard\<close> returns \<^verbatim>\<open>Uncategorized\<close>; the
  second, an InvokeAI one, has the board \<^verbatim>\<open>Landscapes\<close> in its cache, and \<^verbatim>\<open>extractBoard\<close>
  returns the \<^verbatim>\<open>board_name\<close> of the metadata.
\<close>

theorem cache_board_counterexample:
  "cached_field truthy ''board'' (object_of cached_sample) = Some (JStr ''Landscapes'')
   \<and> fst (extractBoard 0 cached_sample initial_boards) = Inr (JStr ''Uncategorized'')
   \<and> cached_field truthy ''board'' (object_of board_sample) = Some (JStr ''Landscapes'')
   \<and> fst (extractBoard 0 board_sample initial_boards) = Inr (JStr ''Portraits'')"
  by code_simp

subsection \<open>Repeated names\<close>

text \<open>
  The pushes of the LoRA extractors for InvokeAI and Automatic1111 metadata are all
  guarded by \<^verbatim>\<open>includes\<close>: their lists have no repeated entry.
\<close>

lemma push_new_distinct: "distinct loras \<Longrightarrow> distinct (push_new loraName loras)"
  by (simp add: push_new_def)

lemma push_matches_distinct: "distinct loras \<Longrightarrow> distinct (push_matches groups loras)"
  unfolding push_matches_def
  by (induction groups arbitrary: loras) (simp_all add: push_new_distinct)

lemma add_lora_entry_distinct: "distinct loras \<Longrightarrow> distinct (add_lora_entry lora loras)"
  by (simp add: add_lora_entry_def Let_def)

lemma add_lora_entries_distinct:
  "distinct loras \<Longrightarrow> distinct (foldl (\<lambda>loras lora. add_lora_entry lora loras) loras entries)"
  by (induction entries arbitrary: loras) (simp_all add: add_lora_entry_distinct)

lemma add_single_lora_distinct:
  "distinct loras \<Longrightarrow> add_single_lora lora loras = Inr loras' \<Longrightarrow> distinct loras'"
  by (auto simp add: add_single_lora_def Let_def split: if_splits)

lemma invokeai_loras_distinct:
  assumes "extractLorasFromInvokeAI metadata = Inr loras"
  shows "distinct loras"
proof (cases "lora_prompt_text (get_prop metadata ''prompt'')")
  case (Inl e)
  then show ?thesis
    using assms by (simp add: extractLorasFromInvokeAI_def split: if_splits)
next
  case (Inr promptText)
  define loras1 where "loras1 =
    push_matches (exec_all (bare_here ''lyco'') None 0 promptText)
      (push_matches (exec_all (bare_here ''lora'') None 0 promptText)
         (push_matches (exec_all (tag_here ''lyco'') None 0 promptText)
            (push_matches (exec_all (tag_here ''lora'') None 0 promptText) [])))"
  define loras2 where "loras2 =
    (if truthy (get_prop metadata ''loras'') \<and> isArray (get_prop metadata ''loras'')
     then foldl (\<lambda>loras lora. add_lora_entry lora loras) loras1
            (case get_prop metadata ''loras'' of JArray xs c \<Rightarrow> xs | _ \<Rightarrow> [])
     else loras1)"
  have "distinct loras1"
    unfolding loras1_def by (intro push_matches_distinct) simp
  then have loras2: "distinct loras2"
    unfolding loras2_def by (simp add: add_lora_entries_distinct)
  have "extractLorasFromInvokeAI metadata
      = (if nullish metadata then Inl TypeError
         else and_then (add_single_lora (get_prop metadata ''lora'') loras2)
                (\<lambda>loras. Inr (filter truthy loras)))"
    unfolding extractLorasFromInvokeAI_def Let_def loras1_def loras2_def Inr by simp
  then obtain loras3 where "add_single_lora (get_prop metadata ''lora'') loras2 = Inr loras3"
    and "loras = filter truthy loras3"
    using assms by (auto simp add: and_then_def split: if_splits sum.splits)
  then show ?thesis
    using loras2 add_single_lora_distinct by (auto intro: distinct_filter)
qed

lemma automatic1111_loras_distinct:
  assumes "extractLorasFromAutomatic1111 metadata = Inr loras"
  shows "distinct loras"
proof -
  have "distinct (push_matches (exec_all (tag_here ''lyco'') None 0 params)
                    (push_matches (exec_all (tag_here ''lora'') None 0 params) []))" for params
    by (intro push_matches_distinct) simp
  then show ?thesis
    using assms by (auto simp add: extractLorasFromAutomatic1111_def Let_def split: if_splits)
qed

text \<open>
  Claim C6. The lists are not free of repeated entries, nor of \<^verbatim>\<open>[object Object]\<close>. In
  \<^verbatim>\<open>extractModelsFromInvokeAI\<close> the file names found by the pattern are pushed only when
  new, and the names of \<^verbatim>\<open>model\<close>, \<^verbatim>\<open>base_model\<close> and \<^verbatim>\<open>model_name\<close> without that test:
  a metadata with the same name in \<^verbatim>\<open>model\<close> and in \<^verbatim>\<open>model_name\<close> gives it twice, in the
  list of \<^verbatim>\<open>extractModels\<close> and in the cache that \<^verbatim>\<open>parseInvokeAIMetadata\<close> fills, while the
  same file name in two properties is listed once. A ComfyUI graph with two checkpoint
  loaders of one file gives the file twice, in the cache of \<^verbatim>\<open>parseComfyUIMetadata\<close> and in
  the list of \<^verbatim>\<open>extractModels\<close>. The text \<^verbatim>\<open>[object Object]\<close> is kept out of the names
  taken from the \<^verbatim>\<open>loras\<close> array, and not out of the names taken from the tags of the
  prompt.
\<close>

theorem lists_repeat_names:
  "extractModels (InvokeAIMetadata (JObj [(''model'', JStr ''sdxl''), (''model_name'', JStr ''sdxl'')]))
     = Inr (JArr [JStr ''sdxl'', JStr ''sdxl''])
   \<and> get_prop (parseInvokeAIMetadata (JObj [(''model'', JStr ''sdxl''), (''model_name'', JStr ''sdxl'')]))
        ''models''
     = JArr [JStr ''sdxl'', JStr ''sdxl'']
   \<and> extractModels (InvokeAIMetadata (JObj [(''vae'', JStr ''x.ckpt''), (''refiner'', JStr ''x.ckpt'')]))
     = Inr (JArr [JStr ''x.ckpt''])
   \<and> get_prop (parseComfyUIMetadata two_loaders) ''models''
     = JArr [JStr ''sdxl.safetensors'', JStr ''sdxl.safetensors'']
   \<and> extractModels (ComfyUIMetadata two_loaders)
     = Inr (JArr [JStr ''sdxl.safetensors'', JStr ''sdxl.safetensors''])
   \<and> extractLoras (InvokeAIMetadata (JObj [(''loras'', JArr [JStr ''[object Object]''])]))
     = Inr (JArr [])
   \<and> extractLoras (InvokeAIMetadata (JObj [(''prompt'', JStr ''<lora:[object Object]:1>'')]))
     = Inr (JArr [JStr ''[object Object]'', JStr ''[object''])"
  by code_simp

end
